theory Spec2Isabelle
  imports Main
begin

section \<open>JavaScript values\<close>

text \<open>
  The middleware inspects values that reach it from the request: it tests them for
  truthiness, reads \<^verbatim>\<open>.length\<close> and asks lodash whether they are strings or arrays.
  The values are therefore modelled as a datatype and not as plain strings.
  A string is a list of characters, one \<open>char\<close> per UTF-16 code unit; a number is an
  integer (the only numbers compared here are lengths); an array holds strings, which
  is what Express delivers for a repeated query key and for accepted languages; an
  object is an association list in insertion order.
\<close>

datatype jsval =
    JUndefined
  | JNull
  | JBool bool
  | JNum int
  | JStr string
  | JArr "string list"
  | JObj "(string \<times> jsval) list"

text \<open>Truthiness, as tested by \<^verbatim>\<open>if (v)\<close>, \<^verbatim>\<open>v && ...\<close> and \<^verbatim>\<open>!v\<close>.\<close>

fun truthy :: "jsval \<Rightarrow> bool" where
  "truthy JUndefined = False"
| "truthy JNull = False"
| "truthy (JBool b) = b"
| "truthy (JNum n) = (n \<noteq> 0)"
| "truthy (JStr s) = (s \<noteq> [])"
| "truthy (JArr xs) = True"
| "truthy (JObj kvs) = True"

text \<open>\<^verbatim>\<open>_.isString\<close> and \<^verbatim>\<open>_.isArray\<close>.\<close>

fun isString :: "jsval \<Rightarrow> bool" where
  "isString (JStr s) = True"
| "isString v = False"


text \<open>
  Property access \<^verbatim>\<open>v[k]\<close> on a value that is already known to be truthy (every such
  access in the source sits behind a \<^verbatim>\<open>v &&\<close> guard): an own property of an object,
  \<^verbatim>\<open>undefined\<close> otherwise.
\<close>

fun js_prop :: "jsval \<Rightarrow> string \<Rightarrow> jsval" where
  "js_prop (JObj kvs) k = (case map_of kvs k of Some v \<Rightarrow> v | None \<Rightarrow> JUndefined)"
| "js_prop v k = JUndefined"

text \<open>
  \<^verbatim>\<open>v.length\<close>, again only read behind a truthiness guard: the number of code units of a
  string, the number of elements of an array, the own property of an object.
\<close>

fun js_length :: "jsval \<Rightarrow> jsval" where
  "js_length (JStr s) = JNum (int (length s))"
| "js_length (JArr xs) = JNum (int (length xs))"
| "js_length (JObj kvs) = js_prop (JObj kvs) ''length''"
| "js_length v = JUndefined"

text \<open>\<^verbatim>\<open>String.prototype.indexOf\<close> and \<^verbatim>\<open>lastIndexOf\<close> for a one-character needle.\<close>

fun indexOf :: "string \<Rightarrow> char \<Rightarrow> int" where
  "indexOf [] c = - 1"
| "indexOf (x # xs) c =
     (if x = c then 0 else (let r = indexOf xs c in if r = - 1 then - 1 else r + 1))"

definition lastIndexOf :: "string \<Rightarrow> char \<Rightarrow> int" where
  "lastIndexOf s c =
     (let r = indexOf (rev s) c in if r = - 1 then - 1 else int (length s) - 1 - r)"

text \<open>\<^verbatim>\<open>s.substring(0, n)\<close> and \<^verbatim>\<open>s.substr(0, n)\<close>; a negative \<open>n\<close> counts as 0.\<close>

definition substring0 :: "string \<Rightarrow> int \<Rightarrow> string" where
  "substring0 s n = take (nat n) s"

section \<open>Resource bundles and the resource store\<close>

text \<open>
  A language file \<^verbatim>\<open><path>/<lang>.json\<close> holds an object with the fields \<^verbatim>\<open>lang\<close>,
  \<^verbatim>\<open>language\<close> and \<^verbatim>\<open>strings\<close>; \<^verbatim>\<open>strings\<close> is an object of JSON values, kept here as an
  association list in the order of the file. The key a bundle is stored under is the
  file's stem; its field \<^verbatim>\<open>lang\<close> is whatever the file says.
\<close>

record resource_bundle =
  lang :: string
  language :: string
  strings :: "(string \<times> jsval) list"

text \<open>
  The exceptions: \<^verbatim>\<open>new TypeError('Wrong method input!')\<close> of \<^verbatim>\<open>middleware.js\<close>,
  \<^verbatim>\<open>new Error("Wrong method input!")\<close> of \<^verbatim>\<open>i18n.js\<close>, and whatever \<^verbatim>\<open>fs.realpathSync\<close> or
  \<^verbatim>\<open>require\<close> throws for a language file that is missing or does not parse.
\<close>

datatype error = TypeError | Error | LoadFailure

text \<open>
  The values the variable \<^verbatim>\<open>defaultLang\<close> and the slot \<^verbatim>\<open>res.locals.i18n\<close> can hold: the
  empty object literal \<^verbatim>\<open>{}\<close> they start with, the \<^verbatim>\<open>false\<close> that \<^verbatim>\<open>buildLang\<close> returns for a
  language that is already built, the \<^verbatim>\<open>undefined\<close> that \<^verbatim>\<open>resources[lang]\<close> gives for a string
  that is no key, or a bundle. \<open>Not_Determined\<close> stands for "\<^verbatim>\<open>undefined\<close> or the default
  bundle": it is the value of a lookup whose string lodash reads as a property path
  that leaves the data described here (see \<open>lodash_has\<close> below).
\<close>

datatype i18n_value =
  Empty_Object | False_Value | Undefined_Value | Not_Determined | Lang resource_bundle

text \<open>
  The private variables of one middleware instance. \<^verbatim>\<open>resources\<close> is a plain object
  used as a dictionary; its keys are kept in insertion order, which is the order
  \<^verbatim>\<open>_.map\<close> visits them in.
\<close>

record engine =
  resources :: "(string \<times> resource_bundle) list"
  defaultLang :: i18n_value
  languages :: "string list"

text \<open>
  The options after the defaults of lines 53 to 61 of \<^verbatim>\<open>middleware.js\<close> are filled in,
  under the names of the private fields that hold them.
\<close>

record options =
  defaultLangAbbr :: string
  languagesConfigured :: "string list"
  endpointEnabled :: bool
  endpointPath :: string
  queryStringEnabled :: bool
  queryStringKey :: string
  langCookie :: string

text \<open>
  What \<^verbatim>\<open>require\<close> gives \<^verbatim>\<open>buildLang\<close>: for an abbreviation, the module object of
  \<^verbatim>\<open>require(fs.realpathSync(path.join(languagesPath, lang + '.json')))\<close>, or \<open>None\<close> when
  \<^verbatim>\<open>realpathSync\<close> or \<^verbatim>\<open>require\<close> throws. The object is the one \<^verbatim>\<open>require\<close> keeps in its
  cache: every instance of the middleware in the process is handed the same object, and
  what one instance writes into its \<^verbatim>\<open>strings\<close> the next one finds there. Different
  abbreviations name different files.
\<close>

type_synonym langfiles = "string \<Rightarrow> resource_bundle option"

section \<open>Plain objects as dictionaries\<close>

text \<open>
  \<^verbatim>\<open>resources\<close> and the \<^verbatim>\<open>strings\<close> of a bundle are plain objects. Reading \<^verbatim>\<open>object[key]\<close> on a
  plain object finds the own properties and, for the names below, the members every
  object inherits from \<^verbatim>\<open>Object.prototype\<close>, none of which is \<^verbatim>\<open>undefined\<close>.
\<close>

definition object_prototype_names :: "string list" where
  "object_prototype_names =
     [''constructor'', ''toString'', ''toLocaleString'', ''valueOf'', ''hasOwnProperty'',
      ''isPrototypeOf'', ''propertyIsEnumerable'', ''__proto__'', ''__defineGetter__'',
      ''__defineSetter__'', ''__lookupGetter__'', ''__lookupSetter__'']"

definition inherited :: "string \<Rightarrow> bool" where
  "inherited k = (k \<in> set object_prototype_names)"

text \<open>\<^verbatim>\<open>defaultLang.strings\<close>: \<^verbatim>\<open>undefined\<close> unless \<^verbatim>\<open>defaultLang\<close> is a bundle.\<close>

fun strings_of :: "i18n_value \<Rightarrow> (string \<times> jsval) list option" where
  "strings_of (Lang b) = Some (strings b)"
| "strings_of v = None"

text \<open>
  \<^verbatim>\<open>_.defaults(object, source)\<close> as lodash 3 does it (\<^verbatim>\<open>assignWith\<close> with the customizer
  \<^verbatim>\<open>assignDefaults\<close>): for every own key of \<^verbatim>\<open>source\<close> it reads \<^verbatim>\<open>object[key]\<close> and assigns the
  source's value when that is \<^verbatim>\<open>undefined\<close>. The read goes through the prototype chain,
  so a key that \<^verbatim>\<open>object\<close> lacks is added unless it is the name of an inherited member;
  keys that \<^verbatim>\<open>object\<close> has keep their value. An \<^verbatim>\<open>undefined\<close> source adds nothing. The
  assignment is made in \<^verbatim>\<open>object\<close> itself, which is also what is returned. (lodash 4
  compares with the inherited member and does add such keys, except \<^verbatim>\<open>__proto__\<close>.)
\<close>

fun defaults ::
  "(string \<times> jsval) list \<Rightarrow> (string \<times> jsval) list option \<Rightarrow> (string \<times> jsval) list" where
  "defaults obj None = obj"
| "defaults obj (Some src) =
     obj @ filter (\<lambda>kv. map_of obj (fst kv) = None \<and> \<not> inherited (fst kv)) src"

section \<open>\<^verbatim>\<open>_.has\<close> and property paths\<close>

text \<open>
  \<^verbatim>\<open>_.has(object, path)\<close> of lodash 3 first asks whether \<^verbatim>\<open>path\<close> is an own property of
  \<^verbatim>\<open>object\<close>. If it is not, and the string is not a plain key, the string is split into a
  property path: all segments but the last are read one after the other, and the last
  is tested as an own property of what was reached.

  The store as lodash walks it: an object of bundles; a bundle has the properties
  \<^verbatim>\<open>lang\<close>, \<^verbatim>\<open>language\<close> and \<^verbatim>\<open>strings\<close>.
\<close>

definition bundle_object :: "resource_bundle \<Rightarrow> jsval" where
  "bundle_object b =
     JObj [(''lang'', JStr (lang b)), (''language'', JStr (language b)),
           (''strings'', JObj (strings b))]"

definition resources_object :: "(string \<times> resource_bundle) list \<Rightarrow> jsval" where
  "resources_object rs = JObj (map (\<lambda>kb. (fst kb, bundle_object (snd kb))) rs)"

text \<open>
  The own properties of a value: the keys of an object; \<^verbatim>\<open>length\<close> and the indices of a
  string or an array. An index is written in decimal without leading zeros.
\<close>

definition array_index :: "string \<Rightarrow> nat option" where
  "array_index k =
     (if k \<noteq> [] \<and> list_all (\<lambda>c. c \<in> set ''0123456789'') k \<and> (hd k \<noteq> CHR ''0'' \<or> length k = 1)
      then Some (foldl (\<lambda>n c. 10 * n + (of_char c - 48)) 0 k)
      else None)"

fun own_property :: "jsval \<Rightarrow> string \<Rightarrow> jsval option" where
  "own_property (JObj kvs) k = map_of kvs k"
| "own_property (JStr s) k =
     (if k = ''length'' then Some (JNum (int (length s)))
      else case array_index k of
        None \<Rightarrow> None
      | Some i \<Rightarrow> if i < length s then Some (JStr [s ! i]) else None)"
| "own_property (JArr xs) k =
     (if k = ''length'' then Some (JNum (int (length xs)))
      else case array_index k of
        None \<Rightarrow> None
      | Some i \<Rightarrow> if i < length xs then Some (JStr (xs ! i)) else None)"
| "own_property v k = None"

text \<open>
  \<^verbatim>\<open>isKey\<close>: a string is a plain key unless it holds a dot or an opening bracket with a
  closing bracket somewhere after it (the expression \<^verbatim>\<open>reIsDeepProp\<close>).
\<close>

definition isDeepProp :: "string \<Rightarrow> bool" where
  "isDeepProp s =
     (CHR ''.'' \<in> set s \<or> CHR '']'' \<in> set (dropWhile (\<lambda>c. c \<noteq> CHR ''['') s))"

definition isKey :: "string \<Rightarrow> bool" where
  "isKey s = (\<not> isDeepProp s)"

text \<open>
  \<^verbatim>\<open>toPath\<close> for a string without an opening bracket: the maximal runs of characters
  other than the dot and the closing bracket (the first alternative of \<^verbatim>\<open>rePropName\<close>).
  The second argument collects the run being read, in reverse.
\<close>

fun path_pieces :: "string \<Rightarrow> string \<Rightarrow> string list" where
  "path_pieces [] acc = (if acc = [] then [] else [rev acc])"
| "path_pieces (c # cs) acc =
     (if c = CHR ''.'' \<or> c = CHR '']''
      then (if acc = [] then path_pieces cs [] else rev acc # path_pieces cs [])
      else path_pieces cs (c # acc))"

definition toPath :: "string \<Rightarrow> string list" where
  "toPath s = path_pieces s []"

text \<open>
  \<^verbatim>\<open>baseGet\<close>: reading the segments one after the other. The walk is lost at \<^verbatim>\<open>null\<close> or
  \<^verbatim>\<open>undefined\<close>, which is what a plain object gives for a key it neither has nor inherits.
  It leaves the data described here when it steps on a member inherited from
  \<^verbatim>\<open>Object.prototype\<close>, or on a property of a string, array, number or boolean that is not
  its own: what is found there is the business of the JavaScript host.
\<close>

datatype reach = Reached jsval | Lost | Outside

fun steps_out :: "jsval \<Rightarrow> string \<Rightarrow> reach" where
  "steps_out JUndefined k = Lost"
| "steps_out JNull k = Lost"
| "steps_out (JObj kvs) k = (if inherited k then Outside else Lost)"
| "steps_out v k = Outside"

fun base_get :: "jsval \<Rightarrow> string list \<Rightarrow> reach" where
  "base_get v [] = Reached v"
| "base_get v (k # ks) =
     (case own_property v k of
        Some v' \<Rightarrow> base_get v' ks
      | None \<Rightarrow> steps_out v k)"

text \<open>
  \<^verbatim>\<open>_.has\<close>. The answer is \<open>Outside_Model\<close> where the walk leaves the data, and for a path
  written with an opening bracket, whose splitting (\<^verbatim>\<open>[0]\<close>, \<^verbatim>\<open>["a.b"]\<close>) is not described
  here. Everywhere else the answer is lodash's.
\<close>

datatype has_answer = Has | Has_Not | Outside_Model

definition lodash_has :: "jsval \<Rightarrow> string \<Rightarrow> has_answer" where
  "lodash_has object path =
     (if own_property object path \<noteq> None then Has
      else if isKey path then Has_Not
      else if CHR ''['' \<in> set path then Outside_Model
      else (case toPath path of
              [] \<Rightarrow> Has_Not
            | k # ks \<Rightarrow>
                (case base_get object (butlast (k # ks)) of
                   Reached v \<Rightarrow>
                     (if v = JNull \<or> v = JUndefined then Has_Not
                      else if own_property v (last (k # ks)) \<noteq> None then Has
                      else Has_Not)
                 | Lost \<Rightarrow> Has_Not
                 | Outside \<Rightarrow> Outside_Model)))"

section \<open>Loading\<close>

text \<open>
  \<^verbatim>\<open>buildLang\<close>, the same in both files. \<^verbatim>\<open>resources[lang] !== undefined\<close> holds for a key of
  the store and for the name of an inherited member. \<^verbatim>\<open>_.extend({}, require(langPath))\<close>
  copies the module object one level deep, so \<^verbatim>\<open>keyValues.strings\<close> is the \<^verbatim>\<open>strings\<close> object
  of the cached module, and \<^verbatim>\<open>_.defaults\<close> fills the gaps in that object. The result holds
  what the function returns, the private variables as it leaves them, and what
  \<^verbatim>\<open>require\<close> gives from then on.
\<close>

definition buildLang ::
  "langfiles \<Rightarrow> engine \<Rightarrow> string \<Rightarrow> error + (i18n_value \<times> engine \<times> langfiles)" where
  "buildLang files eng lng =
     (if map_of (resources eng) lng \<noteq> None \<or> inherited lng then Inr (False_Value, eng, files)
      else case files lng of
        None \<Rightarrow> Inl LoadFailure
      | Some file \<Rightarrow>
          (let merged = defaults (strings file) (strings_of (defaultLang eng));
               keyValues = file\<lparr>strings := merged\<rparr>
           in Inr (Lang keyValues,
                   eng\<lparr>resources := resources eng @ [(lng, keyValues)]\<rparr>,
                   files(lng \<mapsto> file\<lparr>strings := merged\<rparr>))))"

text \<open>The \<^verbatim>\<open>forEach\<close> of \<^verbatim>\<open>initialize\<close> in \<^verbatim>\<open>middleware.js\<close>; an exception ends it.\<close>

fun initialize_loop ::
  "langfiles \<Rightarrow> string \<Rightarrow> engine \<Rightarrow> string list \<Rightarrow> error + (engine \<times> langfiles)" where
  "initialize_loop files d eng [] = Inr (eng, files)"
| "initialize_loop files d eng (l # ls) =
     (if l \<noteq> d then
        (case buildLang files eng l of
           Inl e \<Rightarrow> Inl e
         | Inr r \<Rightarrow> initialize_loop (snd (snd r)) d (fst (snd r)) ls)
      else initialize_loop files d eng ls)"

definition engine0 :: engine where
  "engine0 = \<lparr>resources = [], defaultLang = Empty_Object, languages = []\<rparr>"

text \<open>
  \<^verbatim>\<open>initialize\<close> of \<^verbatim>\<open>middleware.js\<close>, with what it leaves in \<^verbatim>\<open>require\<close>'s cache, and the
  private variables alone.
\<close>

definition initialize_with_cache :: "options \<Rightarrow> langfiles \<Rightarrow> error + (engine \<times> langfiles)" where
  "initialize_with_cache opts files =
     (case buildLang files engine0 (defaultLangAbbr opts) of
        Inl e \<Rightarrow> Inl e
      | Inr r \<Rightarrow>
          (case initialize_loop (snd (snd r)) (defaultLangAbbr opts)
                  ((fst (snd r))\<lparr>defaultLang := fst r\<rparr>) (languagesConfigured opts) of
             Inl e \<Rightarrow> Inl e
           | Inr s \<Rightarrow>
               Inr ((fst s)\<lparr>languages := map (\<lambda>kb. lang (snd kb)) (resources (fst s))\<rparr>, snd s)))"

definition initialize :: "options \<Rightarrow> langfiles \<Rightarrow> error + engine" where
  "initialize opts files =
     (case initialize_with_cache opts files of Inl e \<Rightarrow> Inl e | Inr s \<Rightarrow> Inr (fst s))"



section \<open>Lookup\<close>

text \<open>
  \<^verbatim>\<open>getLang\<close>: \<^verbatim>\<open>resources[lang]\<close> if \<^verbatim>\<open>_.has(resources, lang)\<close>, else \<^verbatim>\<open>defaultLang\<close>. When
  \<^verbatim>\<open>_.has\<close> found the string as a path and not as a key, \<^verbatim>\<open>resources[lang]\<close> is \<^verbatim>\<open>undefined\<close>.
\<close>

definition getLang :: "engine \<Rightarrow> string \<Rightarrow> i18n_value" where
  "getLang eng lng =
     (case lodash_has (resources_object (resources eng)) lng of
        Has \<Rightarrow> (case map_of (resources eng) lng of Some b \<Rightarrow> Lang b | None \<Rightarrow> Undefined_Value)
      | Has_Not \<Rightarrow> defaultLang eng
      | Outside_Model \<Rightarrow> Not_Determined)"

text \<open>\<^verbatim>\<open>getLocaleData\<close> of \<^verbatim>\<open>middleware.js\<close>: anything but a string is a \<^verbatim>\<open>TypeError\<close>.\<close>

fun getLocaleData :: "engine \<Rightarrow> jsval \<Rightarrow> error + i18n_value" where
  "getLocaleData eng (JStr s) = Inr (getLang eng s)"
| "getLocaleData eng v = Inl TypeError"

text \<open>\<^verbatim>\<open>getLanguages\<close>: one \<^verbatim>\<open>{name, value}\<close> object for each entry of \<^verbatim>\<open>resources\<close>.\<close>

record lang_entry =
  entry_name :: string
  entry_value :: string

definition getLanguages :: "engine \<Rightarrow> lang_entry list" where
  "getLanguages eng =
     map (\<lambda>kb. \<lparr>entry_name = language (snd kb), entry_value = lang (snd kb)\<rparr>) (resources eng)"

section \<open>Requests and responses\<close>

text \<open>
  What the handlers read of an Express request. \<^verbatim>\<open>req.user\<close> and \<^verbatim>\<open>req.cookies\<close> are
  \<^verbatim>\<open>undefined\<close> when no authentication layer or cookie parser ran before the middleware;
  both are read behind a guard. \<^verbatim>\<open>req.query\<close> is read without one on line 193: Express's
  query middleware always sets it to an object, whose properties are listed here. A
  repeated key such as \<^verbatim>\<open>?hl=a&hl=b\<close> gives an array. \<^verbatim>\<open>req.acceptsLanguages\<close> is Express's
  negotiation: for a non-empty list it returns one of its members, or \<^verbatim>\<open>false\<close> (\<open>None\<close>).
\<close>

record request =
  reqMethod :: string
  reqPath :: string
  user :: jsval
  query :: "(string \<times> jsval) list"
  cookies :: jsval
  acceptsLanguages :: "string list \<Rightarrow> string option"

record cookie =
  cookie_name :: string
  cookie_value :: jsval
  cookie_maxAge :: int
  cookie_path :: string

record response =
  locals_i18n :: i18n_value
  cookies_set :: "cookie list"

text \<open>
  The state a handler can touch: the private variables of the middleware instance and
  the response object of the request at hand.
\<close>

record world =
  closure :: engine
  res :: response

definition cookieTTL :: int where
  "cookieTTL = 365 * 24 * 3600000"

text \<open>
  \<^verbatim>\<open>res.cookie(name, value, {maxAge: ttl})\<close>. The call is Express's, not this
  repository's: given no \<^verbatim>\<open>path\<close> option, Express sends \<^verbatim>\<open>Path=/\<close>.
\<close>

definition res_cookie :: "string \<Rightarrow> jsval \<Rightarrow> int \<Rightarrow> world \<Rightarrow> world" where
  "res_cookie nm v ttl w =
     w\<lparr>res := (res w)\<lparr>cookies_set := cookies_set (res w) @
        [\<lparr>cookie_name = nm, cookie_value = v, cookie_maxAge = ttl, cookie_path = ''/''\<rparr>]\<rparr>\<rparr>"

definition set_locals :: "i18n_value \<Rightarrow> world \<Rightarrow> world" where
  "set_locals v w = w\<lparr>res := (res w)\<lparr>locals_i18n := v\<rparr>\<rparr>"

text \<open>
  \<^verbatim>\<open>res.locals.i18n = getLocaleData(v)\<close>: an exception leaves the state as it is and
  is handed to the caller (first component); \<open>None\<close> there means the statement completed.
\<close>

definition assign_locale :: "jsval \<Rightarrow> world \<Rightarrow> error option \<times> world" where
  "assign_locale v w =
     (case getLocaleData (closure w) v of
        Inl e \<Rightarrow> (Some e, w)
      | Inr b \<Rightarrow> (None, set_locals b w))"

text \<open>\<^verbatim>\<open>req.query[options.queryStringKey]\<close>, line 193.\<close>

definition queryValue :: "options \<Rightarrow> request \<Rightarrow> jsval" where
  "queryValue opts req = js_prop (JObj (query req)) (queryStringKey opts)"

text \<open>
  \<^verbatim>\<open>serveLocaleData\<close> of \<^verbatim>\<open>middleware.js\<close>, lines 190 to 222. In the query branch the cookie
  is written after \<^verbatim>\<open>getLocaleData\<close> has returned. A result \<open>(None, w)\<close> means \<^verbatim>\<open>next()\<close> was
  called; \<open>(Some e, w)\<close> means \<open>e\<close> was thrown with the state at \<open>w\<close>.
\<close>

definition serveLocaleData :: "options \<Rightarrow> request \<Rightarrow> world \<Rightarrow> error option \<times> world" where
  "serveLocaleData opts req w0 =
     (let w = set_locals Empty_Object w0;
          qv = queryValue opts req
      in
        if truthy (user req) \<and> truthy (js_prop (user req) ''language'') then
          assign_locale (js_prop (user req) ''language'') w
        else if truthy qv \<and> js_length qv = JNum 2 then
          (case assign_locale qv w of
             (Some e, w') \<Rightarrow> (Some e, w')
           | (None, w') \<Rightarrow> (None, res_cookie (langCookie opts) qv cookieTTL w'))
        else if truthy (cookies req) \<and> truthy (js_prop (cookies req) (langCookie opts)) then
          assign_locale (js_prop (cookies req) (langCookie opts)) w
        else
          (let accepted = acceptsLanguages req (languages (closure w));
               accepted' = (case accepted of
                              None \<Rightarrow> defaultLangAbbr opts
                            | Some a \<Rightarrow> if a = [] then defaultLangAbbr opts else a)
           in assign_locale (JStr accepted') w))"

text \<open>What a run of \<^verbatim>\<open>serveLocaleData\<close> threw, and what it left in \<^verbatim>\<open>res.locals.i18n\<close>.\<close>

definition raised :: "error option \<times> world \<Rightarrow> error option" where
  "raised r = fst r"

definition resolved :: "error option \<times> world \<Rightarrow> i18n_value" where
  "resolved r = locals_i18n (res (snd r))"

text \<open>
  The language the last branch settles on: what \<^verbatim>\<open>req.acceptsLanguages\<close> returns, or the
  default abbreviation when that is falsy.
\<close>

definition negotiated :: "options \<Rightarrow> engine \<Rightarrow> request \<Rightarrow> string" where
  "negotiated opts eng req =
     (case acceptsLanguages req (languages eng) of
        None \<Rightarrow> defaultLangAbbr opts
      | Some a \<Rightarrow> if a = [] then defaultLangAbbr opts else a)"

text \<open>The argument \<^verbatim>\<open>serveLocaleData\<close> passes to \<^verbatim>\<open>getLocaleData\<close>, branch by branch.\<close>

definition selected :: "options \<Rightarrow> engine \<Rightarrow> request \<Rightarrow> jsval" where
  "selected opts eng req =
     (if truthy (user req) \<and> truthy (js_prop (user req) ''language'') then
        js_prop (user req) ''language''
      else if truthy (queryValue opts req) \<and> js_length (queryValue opts req) = JNum 2 then
        queryValue opts req
      else if truthy (cookies req) \<and> truthy (js_prop (cookies req) (langCookie opts)) then
        js_prop (cookies req) (langCookie opts)
      else JStr (negotiated opts eng req))"

section \<open>The router\<close>

datatype handler = ServeResources | ServeStrings | ServeLanguages

datatype json_body =
    ResourcesJson i18n_value
  | StringsJson "(string \<times> jsval) list option"
  | StringsJson_Not_Determined
  | LanguagesJson "lang_entry list"

text \<open>
  What \<^verbatim>\<open>res.json\<close> is given by the three endpoint handlers. \<^verbatim>\<open>serveStrings\<close> reads
  \<^verbatim>\<open>res.locals.i18n.strings\<close>, which throws when \<^verbatim>\<open>res.locals.i18n\<close> is \<^verbatim>\<open>undefined\<close>.
\<close>

fun run_handler :: "handler \<Rightarrow> request \<Rightarrow> world \<Rightarrow> error + json_body" where
  "run_handler ServeResources req w = Inr (ResourcesJson (locals_i18n (res w)))"
| "run_handler ServeStrings req w =
     (case locals_i18n (res w) of
        Undefined_Value \<Rightarrow> Inl TypeError
      | Not_Determined \<Rightarrow> Inr StringsJson_Not_Determined
      | v \<Rightarrow> Inr (StringsJson (strings_of v)))"
| "run_handler ServeLanguages req w = Inr (LanguagesJson (getLanguages (closure w)))"

text \<open>
  The paths of the GET routes registered on lines 263 to 273. The result of
  \<^verbatim>\<open>endpointPath.substring(0, lastSlash)\<close> on line 268 is not assigned to anything, so the
  routes are built from the path as configured.
\<close>

definition endpointRoutes :: "options \<Rightarrow> (string \<times> handler) list" where
  "endpointRoutes opts =
     (if endpointEnabled opts then
        (let endpointPath = endpointPath opts;
             lastSlash = lastIndexOf endpointPath CHR ''/'';
             unused = (if lastSlash = int (length endpointPath) - 1
                       then Some (substring0 endpointPath lastSlash) else None)
         in [(endpointPath, ServeResources),
             (endpointPath @ ''/strings'', ServeStrings),
             (endpointPath @ ''/languages'', ServeLanguages)])
      else [])"

record router =
  instance_options :: options
  instance_engine :: engine
  routes :: "(string \<times> handler) list"

definition localizeMiddleware :: "options \<Rightarrow> langfiles \<Rightarrow> error + router" where
  "localizeMiddleware opts files =
     (case initialize opts files of
        Inl e \<Rightarrow> Inl e
      | Inr eng \<Rightarrow>
          Inr \<lparr>instance_options = opts, instance_engine = eng, routes = endpointRoutes opts\<rparr>)"

text \<open>
  One request through the router. \<^verbatim>\<open>router.all('*', serveLocaleData)\<close> runs first; an
  exception there, as in an endpoint handler, goes to Express's error handling and no
  later handler runs. Then the
  first GET route that Express matches against the request answers; \<open>matches\<close> stands for
  Express's path matching, which is not part of this repository. With no match the
  request leaves the router for the application's own handlers.
\<close>

datatype outcome = Failed error | Responded json_body | PassedOn

fun first_route ::
  "(string \<Rightarrow> request \<Rightarrow> bool) \<Rightarrow> (string \<times> handler) list \<Rightarrow> request \<Rightarrow> handler option" where
  "first_route matches [] req = None"
| "first_route matches (r # rs) req =
     (if matches (fst r) req then Some (snd r) else first_route matches rs req)"

definition handle_request ::
  "(string \<Rightarrow> request \<Rightarrow> bool) \<Rightarrow> router \<Rightarrow> request \<Rightarrow> response \<Rightarrow> outcome \<times> world" where
  "handle_request matches rt req rs =
     (case serveLocaleData (instance_options rt) req \<lparr>closure = instance_engine rt, res = rs\<rparr> of
        (Some e, w) \<Rightarrow> (Failed e, w)
      | (None, w) \<Rightarrow>
          (case first_route matches (routes rt) req of
             Some h \<Rightarrow>
               (case run_handler h req w of
                  Inl e \<Rightarrow> (Failed e, w)
                | Inr body \<Rightarrow> (Responded body, w))
           | None \<Rightarrow> (PassedOn, w)))"

section \<open>The variant in \<^verbatim>\<open>i18n.js\<close>\<close>

text \<open>
  \<^verbatim>\<open>i18n.js\<close> shares \<^verbatim>\<open>buildLang\<close>, \<^verbatim>\<open>getLang\<close> and \<^verbatim>\<open>getLanguages\<close> with \<^verbatim>\<open>middleware.js\<close>. Its
  \<^verbatim>\<open>initialize\<close> builds every configured language (\<^verbatim>\<open>buildLang\<close> itself skips the ones already
  built), and its \<^verbatim>\<open>getLocaleData\<close> also takes a list of accepted languages.
\<close>

fun initialize_loop_i18n ::
  "langfiles \<Rightarrow> engine \<Rightarrow> string list \<Rightarrow> error + (engine \<times> langfiles)" where
  "initialize_loop_i18n files eng [] = Inr (eng, files)"
| "initialize_loop_i18n files eng (l # ls) =
     (case buildLang files eng l of
        Inl e \<Rightarrow> Inl e
      | Inr r \<Rightarrow> initialize_loop_i18n (snd (snd r)) (fst (snd r)) ls)"

definition initialize_i18n_with_cache ::
  "string \<Rightarrow> string list \<Rightarrow> langfiles \<Rightarrow> error + (engine \<times> langfiles)" where
  "initialize_i18n_with_cache dflt configLanguages files =
     (case buildLang files engine0 dflt of
        Inl e \<Rightarrow> Inl e
      | Inr r \<Rightarrow>
          (case initialize_loop_i18n (snd (snd r)) ((fst (snd r))\<lparr>defaultLang := fst r\<rparr>)
                  configLanguages of
             Inl e \<Rightarrow> Inl e
           | Inr s \<Rightarrow>
               Inr ((fst s)\<lparr>languages := map (\<lambda>kb. lang (snd kb)) (resources (fst s))\<rparr>, snd s)))"

definition initialize_i18n :: "string \<Rightarrow> string list \<Rightarrow> langfiles \<Rightarrow> error + engine" where
  "initialize_i18n dflt configLanguages files =
     (case initialize_i18n_with_cache dflt configLanguages files of
        Inl e \<Rightarrow> Inl e
      | Inr s \<Rightarrow> Inr (fst s))"

text \<open>\<^verbatim>\<open>_.compact\<close> drops falsy elements, here empty strings; \<^verbatim>\<open>_.uniq\<close> keeps first occurrences.\<close>

definition compact :: "string list \<Rightarrow> string list" where
  "compact xs = filter (\<lambda>x. x \<noteq> []) xs"

fun uniq :: "string list \<Rightarrow> string list" where
  "uniq [] = []"
| "uniq (x # xs) = x # filter (\<lambda>y. y \<noteq> x) (uniq xs)"

text \<open>The body of the loop of \<^verbatim>\<open>parseLangs\<close>: the language of a locale such as \<^verbatim>\<open>es-MX\<close>.\<close>

definition strip_locale :: "string \<Rightarrow> string" where
  "strip_locale item =
     (let pos = indexOf item CHR ''-'' in if pos \<noteq> - 1 then substring0 item pos else item)"

definition parseLangs :: "string list \<Rightarrow> string list" where
  "parseLangs langArray = uniq (compact (map strip_locale langArray))"

text \<open>The loop of \<^verbatim>\<open>getLangs\<close>, with the same \<^verbatim>\<open>_.has\<close> as \<^verbatim>\<open>getLang\<close>.\<close>

fun first_available :: "engine \<Rightarrow> string list \<Rightarrow> i18n_value" where
  "first_available eng [] = defaultLang eng"
| "first_available eng (l # ls) =
     (case lodash_has (resources_object (resources eng)) l of
        Has \<Rightarrow> (case map_of (resources eng) l of Some b \<Rightarrow> Lang b | None \<Rightarrow> Undefined_Value)
      | Has_Not \<Rightarrow> first_available eng ls
      | Outside_Model \<Rightarrow> Not_Determined)"

definition getLangs :: "engine \<Rightarrow> string list \<Rightarrow> i18n_value" where
  "getLangs eng langString = first_available eng (parseLangs langString)"

fun getLocaleData_i18n :: "string \<Rightarrow> engine \<Rightarrow> jsval \<Rightarrow> error + i18n_value" where
  "getLocaleData_i18n dflt eng (JStr s) = Inr (getLang eng s)"
| "getLocaleData_i18n dflt eng (JArr xs) =
     Inr (getLangs eng (if length xs = 1 \<and> hd xs = ''null'' then [dflt] else xs))"
| "getLocaleData_i18n dflt eng v = Inl Error"

text \<open>
  \<^verbatim>\<open>serveLocaleData\<close> of \<^verbatim>\<open>i18n.js\<close>, lines 176 to 193: the user's language, then the cookie
  named \<^verbatim>\<open>language\<close>, then negotiation. There is no query branch and no cookie is written.
\<close>

definition serveLocaleData_i18n :: "string \<Rightarrow> request \<Rightarrow> world \<Rightarrow> error option \<times> world" where
  "serveLocaleData_i18n dflt req w0 =
     (let w = set_locals Empty_Object w0;
          assign = (\<lambda>v. case getLocaleData_i18n dflt (closure w) v of
                          Inl e \<Rightarrow> (Some e, w)
                        | Inr b \<Rightarrow> (None, set_locals b w))
      in
        if truthy (user req) \<and> truthy (js_prop (user req) ''language'') then
          assign (js_prop (user req) ''language'')
        else if truthy (cookies req) \<and> truthy (js_prop (cookies req) ''language'') then
          assign (js_prop (cookies req) ''language'')
        else
          assign (JStr (case acceptsLanguages req (languages (closure w)) of
                          None \<Rightarrow> dflt
                        | Some a \<Rightarrow> if a = [] then dflt else a)))"


section \<open>The precedence chain as the specification words it\<close>

text \<open>
  The specification describes resolution as a chain of signals, first match wins:
  the language of the authenticated user, a query value of exactly two characters, the
  language cookie, and last the negotiated language with the default abbreviation as
  its fallback. A signal is present when it is there and not empty.
\<close>

definition has_user_language :: "request \<Rightarrow> bool" where
  "has_user_language req = (truthy (user req) \<and> truthy (js_prop (user req) ''language''))"

fun two_characters :: "jsval \<Rightarrow> bool" where
  "two_characters (JStr s) = (length s = 2)"
| "two_characters v = False"

definition has_cookie_language :: "options \<Rightarrow> request \<Rightarrow> bool" where
  "has_cookie_language opts req =
     (truthy (cookies req) \<and> truthy (js_prop (cookies req) (langCookie opts)))"

definition candidates :: "options \<Rightarrow> request \<Rightarrow> jsval option list" where
  "candidates opts req =
     [if has_user_language req then Some (js_prop (user req) ''language'') else None,
      if two_characters (queryValue opts req) then Some (queryValue opts req) else None,
      if has_cookie_language opts req then Some (js_prop (cookies req) (langCookie opts)) else None]"

fun first_match :: "jsval option list \<Rightarrow> jsval option" where
  "first_match [] = None"
| "first_match (Some v # cs) = Some v"
| "first_match (None # cs) = first_match cs"

definition precedence_chain :: "options \<Rightarrow> engine \<Rightarrow> request \<Rightarrow> jsval" where
  "precedence_chain opts eng req =
     (case first_match (candidates opts req) of
        Some v \<Rightarrow> v
      | None \<Rightarrow> JStr (negotiated opts eng req))"

text \<open>
  The third link of the chain as the specification states it: "if a cookie named
  \<^verbatim>\<open>langCookie\<close> is present, use its value". Read to the letter, a cookie sent with an
  empty value is present.
\<close>

definition cookie_present :: "options \<Rightarrow> request \<Rightarrow> bool" where
  "cookie_present opts req = (js_prop (cookies req) (langCookie opts) \<noteq> JUndefined)"

definition stated_chain :: "options \<Rightarrow> engine \<Rightarrow> request \<Rightarrow> jsval" where
  "stated_chain opts eng req =
     (case first_match
             [if has_user_language req then Some (js_prop (user req) ''language'') else None,
              if two_characters (queryValue opts req) then Some (queryValue opts req) else None,
              if cookie_present opts req then Some (js_prop (cookies req) (langCookie opts))
              else None] of
        Some v \<Rightarrow> v
      | None \<Rightarrow> JStr (negotiated opts eng req))"

text \<open>
  A query value that passes the length test of line 199 without being a string: a
  two-element array, or an object with a \<^verbatim>\<open>length\<close> of 2.
\<close>

definition nonstring_length2 :: "jsval \<Rightarrow> bool" where
  "nonstring_length2 v = (truthy v \<and> js_length v = JNum 2 \<and> \<not> isString v)"

section \<open>An invariant of the store\<close>

text \<open>
  What \<^verbatim>\<open>initialize\<close> establishes and every later \<^verbatim>\<open>buildLang\<close> keeps: the default bundle
  \<open>db\<close> is the content of the default language's file and sits in the store under the
  default abbreviation, the keys of the store are distinct, and every other entry is
  its file with the gaps of \<^verbatim>\<open>strings\<close> filled from \<open>db\<close>. It needs a default abbreviation
  that is not the name of an inherited member: for such a name \<^verbatim>\<open>buildLang\<close> loads nothing
  and \<^verbatim>\<open>defaultLang\<close> is \<^verbatim>\<open>false\<close>.
\<close>

definition store_ok :: "langfiles \<Rightarrow> string \<Rightarrow> resource_bundle \<Rightarrow> engine \<Rightarrow> bool" where
  "store_ok files d db eng =
     (defaultLang eng = Lang db \<and> files d = Some db \<and> map_of (resources eng) d = Some db \<and>
      distinct (map fst (resources eng)) \<and>
      list_all (\<lambda>kb. if fst kb = d then snd kb = db
                     else (case files (fst kb) of
                             None \<Rightarrow> False
                           | Some own \<Rightarrow>
                               snd kb = own\<lparr>strings := defaults (strings own) (Some (strings db))\<rparr>))
               (resources eng))"

text \<open>
  What \<^verbatim>\<open>require\<close> gives once an instance has loaded its languages from \<open>files\<close>: for a
  language of the store the bundle with its merged \<^verbatim>\<open>strings\<close>, for any other file what it
  gave before.
\<close>

definition cache_of :: "langfiles \<Rightarrow> engine \<Rightarrow> langfiles" where
  "cache_of files eng =
     (\<lambda>l. case map_of (resources eng) l of Some b \<Rightarrow> Some b | None \<Rightarrow> files l)"

section \<open>A small installation\<close>

text \<open>
  Two language files in the manner of the repository's test application: English, the
  default, and Spanish, which lacks one of the English keys.
\<close>

definition en_file :: resource_bundle where
  "en_file = \<lparr>lang = ''en'', language = ''English'',
               strings = [(''greeting'', JStr ''Hello''), (''bye'', JStr ''Bye'')]\<rparr>"

definition es_file :: resource_bundle where
  "es_file = \<lparr>lang = ''es'', language = ''Spanish'', strings = [(''bye'', JStr ''Adios'')]\<rparr>"

definition es_built :: resource_bundle where
  "es_built = \<lparr>lang = ''es'', language = ''Spanish'',
                strings = [(''bye'', JStr ''Adios''), (''greeting'', JStr ''Hello'')]\<rparr>"

definition test_files :: langfiles where
  "test_files = map_of [(''en'', en_file), (''es'', es_file)]"

definition test_options :: options where
  "test_options =
     \<lparr>defaultLangAbbr = ''en'', languagesConfigured = [''en'', ''es''], endpointEnabled = True,
      endpointPath = ''/i18n'', queryStringEnabled = True, queryStringKey = ''hl'',
      langCookie = ''xp_i18n_lang''\<rparr>"

definition test_engine :: engine where
  "test_engine =
     \<lparr>resources = [(''en'', en_file), (''es'', es_built)], defaultLang = Lang en_file,
      languages = [''en'', ''es'']\<rparr>"

text \<open>A request with no language signal at all, and variations of it.\<close>

definition plain_request :: request where
  "plain_request =
     \<lparr>reqMethod = ''GET'', reqPath = ''/i18n'', user = JUndefined, query = [],
      cookies = JObj [], acceptsLanguages = (\<lambda>ls. None)\<rparr>"

definition prefers_es :: "string list \<Rightarrow> string option" where
  "prefers_es ls = (if ''es'' \<in> set ls then Some ''es'' else None)"

definition fresh_response :: response where
  "fresh_response = \<lparr>locals_i18n = Empty_Object, cookies_set = []\<rparr>"

definition test_world :: world where
  "test_world = \<lparr>closure = test_engine, res = fresh_response\<rparr>"

definition exact_path :: "string \<Rightarrow> request \<Rightarrow> bool" where
  "exact_path p req = (reqMethod req = ''GET'' \<and> reqPath req = p)"

definition query_and_cookie_request :: request where
  "query_and_cookie_request =
     plain_request\<lparr>query := [(''hl'', JStr ''es'')],
                   cookies := JObj [(''xp_i18n_lang'', JStr ''en'')]\<rparr>"

definition repeated_key_request :: request where
  "repeated_key_request =
     plain_request\<lparr>query := [(''hl'', JArr [''a'', ''b''])], acceptsLanguages := prefers_es\<rparr>"

definition fr_cookie_request :: request where
  "fr_cookie_request =
     plain_request\<lparr>cookies := JObj [(''xp_i18n_lang'', JStr ''fr'')], acceptsLanguages := prefers_es\<rparr>"

definition languages_request :: request where
  "languages_request = plain_request\<lparr>reqPath := ''/i18n/languages'', acceptsLanguages := prefers_es\<rparr>"

definition numeric_user_request :: request where
  "numeric_user_request = languages_request\<lparr>user := JObj [(''language'', JNum 5)]\<rparr>"

definition test_router :: router where
  "test_router =
     \<lparr>instance_options = test_options, instance_engine = test_engine,
      routes = [(''/i18n'', ServeResources), (''/i18n/strings'', ServeStrings),
                (''/i18n/languages'', ServeLanguages)]\<rparr>"

definition empty_cookie_request :: request where
  "empty_cookie_request =
     plain_request\<lparr>cookies := JObj [(''xp_i18n_lang'', JStr [])], acceptsLanguages := prefers_es\<rparr>"

definition repeated_key_languages_request :: request where
  "repeated_key_languages_request =
     languages_request\<lparr>query := [(''hl'', JArr [''a'', ''b''])]\<rparr>"








text \<open>A request for the strings endpoint whose cookie is a property path into the store.\<close>

definition path_cookie_request :: request where
  "path_cookie_request =
     plain_request\<lparr>reqPath := ''/i18n/strings'',
                   cookies := JObj [(''xp_i18n_lang'', JStr ''en.strings'')]\<rparr>"

text \<open>An installation of \<^verbatim>\<open>i18n.js\<close> whose default abbreviation is a locale.\<close>

definition mx_file :: resource_bundle where
  "mx_file = \<lparr>lang = ''es-MX'', language = ''Mexican Spanish'',
               strings = [(''bye'', JStr ''Hasta luego'')]\<rparr>"

definition mx_files :: langfiles where
  "mx_files = map_of [(''es-MX'', mx_file), (''es'', es_file)]"

definition mx_engine :: engine where
  "mx_engine =
     \<lparr>resources = [(''es-MX'', mx_file), (''es'', es_file)], defaultLang = Lang mx_file,
      languages = [''es-MX'', ''es'']\<rparr>"

text \<open>
  An installation of \<^verbatim>\<open>i18n.js\<close> whose default abbreviation is a locale with a dot in its
  language part.
\<close>

definition dotted_files :: langfiles where
  "dotted_files = map_of [(''es.lang-MX'', mx_file), (''es'', es_file)]"

definition dotted_engine :: engine where
  "dotted_engine =
     \<lparr>resources = [(''es.lang-MX'', mx_file), (''es'', es_file)], defaultLang = Lang mx_file,
      languages = [''es-MX'', ''es'']\<rparr>"

section \<open>Facts about \<^verbatim>\<open>_.defaults\<close>\<close>







section \<open>Facts about \<^verbatim>\<open>_.has\<close>\<close>

lemma own_property_store:
  "own_property (resources_object rs) k = map_option bundle_object (map_of rs k)"
  by (induction rs) (auto simp: resources_object_def)

lemma lodash_has_key:
  "map_of rs k = Some b \<Longrightarrow> lodash_has (resources_object rs) k = Has"
  by (simp add: lodash_has_def own_property_store)

lemma lodash_has_plain:
  "map_of rs k = None \<Longrightarrow> isKey k \<Longrightarrow> lodash_has (resources_object rs) k = Has_Not"
  by (simp add: lodash_has_def own_property_store)

lemma lodash_has_not_key:
  "lodash_has (resources_object rs) k = Has_Not \<Longrightarrow> map_of rs k = None"
  by (cases "map_of rs k") (simp_all add: lodash_has_key)

lemma getLang_key: "map_of (resources eng) k = Some b \<Longrightarrow> getLang eng k = Lang b"
  by (simp add: getLang_def lodash_has_key)

lemma getLang_plain:
  "map_of (resources eng) k = None \<Longrightarrow> isKey k \<Longrightarrow> getLang eng k = defaultLang eng"
  by (simp add: getLang_def lodash_has_plain)



section \<open>Initialization establishes the invariant\<close>

lemma buildLang_distinct:
  assumes "distinct (map fst (resources eng))" and "buildLang cache eng l = Inr r"
  shows "distinct (map fst (resources (fst (snd r))))"
  using assms
  by (auto simp: buildLang_def Let_def map_of_eq_None_iff split: if_splits option.splits)

lemma buildLang_cache:
  assumes "cache = cache_of files eng" and "buildLang cache eng l = Inr r"
  shows "snd (snd r) = cache_of files (fst (snd r))"
proof (cases "map_of (resources eng) l \<noteq> None \<or> inherited l")
  case True
  with assms show ?thesis by (auto simp: buildLang_def)
next
  case False
  then have n: "map_of (resources eng) l = None" by simp
  with False assms(2) obtain own where f: "cache l = Some own"
    and e: "fst (snd r) = eng\<lparr>resources := resources eng @
        [(l, own\<lparr>strings := defaults (strings own) (strings_of (defaultLang eng))\<rparr>)]\<rparr>"
    and c: "snd (snd r) =
        cache(l \<mapsto> own\<lparr>strings := defaults (strings own) (strings_of (defaultLang eng))\<rparr>)"
    by (auto simp: buildLang_def Let_def split: option.splits)
  show ?thesis
    unfolding e c assms(1) using n
    by (auto simp: cache_of_def fun_eq_iff map_add_def split: option.splits)
qed

lemma buildLang_store_ok:
  assumes "store_ok files d db eng" and "cache = cache_of files eng"
    and "buildLang cache eng l = Inr r"
  shows "store_ok files d db (fst (snd r))"
proof (cases "map_of (resources eng) l \<noteq> None \<or> inherited l")
  case True
  with assms show ?thesis by (auto simp: buildLang_def)
next
  case False
  then have n: "map_of (resources eng) l = None" by simp
  then have nk: "l \<notin> fst ` set (resources eng)" by (simp add: map_of_eq_None_iff)
  from n assms(1) have ld: "l \<noteq> d" by (auto simp: store_ok_def)
  from n assms(2) have fl: "cache l = files l" by (simp add: cache_of_def)
  from False assms(3) obtain own where f: "cache l = Some own"
    and e: "fst (snd r) = eng\<lparr>resources := resources eng @
        [(l, own\<lparr>strings := defaults (strings own) (strings_of (defaultLang eng))\<rparr>)]\<rparr>"
    by (auto simp: buildLang_def Let_def split: option.splits)
  from assms(1) have dl: "strings_of (defaultLang eng) = Some (strings db)"
    by (simp add: store_ok_def)
  show ?thesis using assms(1) nk ld f fl unfolding e dl
    by (auto simp: store_ok_def map_add_def split: option.splits)
qed

lemma initialize_loop_distinct:
  "distinct (map fst (resources eng)) \<Longrightarrow> initialize_loop cache d eng ls = Inr s \<Longrightarrow>
   distinct (map fst (resources (fst s)))"
proof (induction ls arbitrary: eng cache)
  case Nil
  then show ?case by auto
next
  case (Cons l ls)
  show ?case
  proof (cases "l = d")
    case True
    with Cons show ?thesis by simp
  next
    case False
    with Cons.prems(2) obtain r where r: "buildLang cache eng l = Inr r"
      and rest: "initialize_loop (snd (snd r)) d (fst (snd r)) ls = Inr s"
      by (auto split: sum.splits)
    from buildLang_distinct[OF Cons.prems(1) r] rest show ?thesis
      by (rule Cons.IH)
  qed
qed

lemma initialize_loop_i18n_distinct:
  "distinct (map fst (resources eng)) \<Longrightarrow> initialize_loop_i18n cache eng ls = Inr s \<Longrightarrow>
   distinct (map fst (resources (fst s)))"
proof (induction ls arbitrary: eng cache)
  case Nil
  then show ?case by auto
next
  case (Cons l ls)
  from Cons.prems(2) obtain r where r: "buildLang cache eng l = Inr r"
    and rest: "initialize_loop_i18n (snd (snd r)) (fst (snd r)) ls = Inr s"
    by (auto split: sum.splits)
  from buildLang_distinct[OF Cons.prems(1) r] rest show ?case
    by (rule Cons.IH)
qed

lemma initialize_loop_store_ok:
  "store_ok files d db eng \<Longrightarrow> cache = cache_of files eng \<Longrightarrow>
   initialize_loop cache d eng ls = Inr s \<Longrightarrow>
   store_ok files d db (fst s) \<and> snd s = cache_of files (fst s)"
proof (induction ls arbitrary: eng cache)
  case Nil
  then show ?case by auto
next
  case (Cons l ls)
  show ?case
  proof (cases "l = d")
    case True
    with Cons show ?thesis by simp
  next
    case False
    with Cons.prems(3) obtain r where r: "buildLang cache eng l = Inr r"
      and rest: "initialize_loop (snd (snd r)) d (fst (snd r)) ls = Inr s"
      by (auto split: sum.splits)
    from buildLang_store_ok[OF Cons.prems(1,2) r] buildLang_cache[OF Cons.prems(2) r] rest
    show ?thesis by (rule Cons.IH)
  qed
qed

lemma initialize_loop_i18n_store_ok:
  "store_ok files d db eng \<Longrightarrow> cache = cache_of files eng \<Longrightarrow>
   initialize_loop_i18n cache eng ls = Inr s \<Longrightarrow>
   store_ok files d db (fst s) \<and> snd s = cache_of files (fst s)"
proof (induction ls arbitrary: eng cache)
  case Nil
  then show ?case by auto
next
  case (Cons l ls)
  from Cons.prems(3) obtain r where r: "buildLang cache eng l = Inr r"
    and rest: "initialize_loop_i18n (snd (snd r)) (fst (snd r)) ls = Inr s"
    by (auto split: sum.splits)
  from buildLang_store_ok[OF Cons.prems(1,2) r] buildLang_cache[OF Cons.prems(2) r] rest
  show ?case by (rule Cons.IH)
qed

lemma first_build:
  assumes "buildLang files engine0 d = Inr r" and "\<not> inherited d"
  shows "\<exists>db. store_ok files d db ((fst (snd r))\<lparr>defaultLang := fst r\<rparr>) \<and>
              snd (snd r) = cache_of files ((fst (snd r))\<lparr>defaultLang := fst r\<rparr>)"
  using assms
  by (auto simp: buildLang_def engine0_def store_ok_def cache_of_def Let_def fun_eq_iff
      split: option.splits)

lemma first_build_distinct:
  assumes "buildLang files engine0 d = Inr r"
  shows "distinct (map fst (resources ((fst (snd r))\<lparr>defaultLang := fst r\<rparr>)))"
  using assms
  by (auto simp: buildLang_def engine0_def Let_def split: if_splits option.splits)

lemma store_ok_languages:
  "store_ok files d db eng \<Longrightarrow> store_ok files d db (eng\<lparr>languages := ls\<rparr>)"
  by (simp add: store_ok_def)

lemma cache_of_languages: "cache_of files (eng\<lparr>languages := ls\<rparr>) = cache_of files eng"
  by (simp add: cache_of_def)

lemma initialize_with_cache_store_ok:
  assumes "initialize_with_cache opts files = Inr (eng, cache)"
    and "\<not> inherited (defaultLangAbbr opts)"
  shows "(\<exists>db. store_ok files (defaultLangAbbr opts) db eng) \<and> cache = cache_of files eng"
proof -
  from assms(1) obtain r s where r: "buildLang files engine0 (defaultLangAbbr opts) = Inr r"
    and l: "initialize_loop (snd (snd r)) (defaultLangAbbr opts)
              ((fst (snd r))\<lparr>defaultLang := fst r\<rparr>) (languagesConfigured opts) = Inr s"
    and e: "eng = (fst s)\<lparr>languages := map (\<lambda>kb. lang (snd kb)) (resources (fst s))\<rparr>"
    and c: "cache = snd s"
    by (auto simp: initialize_with_cache_def split: sum.splits)
  from first_build[OF r assms(2)] obtain db
    where ok: "store_ok files (defaultLangAbbr opts) db ((fst (snd r))\<lparr>defaultLang := fst r\<rparr>)"
      and ch: "snd (snd r) = cache_of files ((fst (snd r))\<lparr>defaultLang := fst r\<rparr>)"
    by blast
  from initialize_loop_store_ok[OF ok ch l] show ?thesis
    unfolding e c by (auto intro: store_ok_languages simp: cache_of_languages)
qed

lemma initialize_store_ok:
  assumes "initialize opts files = Inr eng" and "\<not> inherited (defaultLangAbbr opts)"
  shows "\<exists>db. store_ok files (defaultLangAbbr opts) db eng"
proof -
  from assms(1) obtain cache where "initialize_with_cache opts files = Inr (eng, cache)"
    by (auto simp: initialize_def split: sum.splits)
  from initialize_with_cache_store_ok[OF this assms(2)] show ?thesis by blast
qed

lemma initialize_distinct:
  assumes "initialize opts files = Inr eng"
  shows "distinct (map fst (resources eng))"
proof -
  from assms obtain r s where r: "buildLang files engine0 (defaultLangAbbr opts) = Inr r"
    and l: "initialize_loop (snd (snd r)) (defaultLangAbbr opts)
              ((fst (snd r))\<lparr>defaultLang := fst r\<rparr>) (languagesConfigured opts) = Inr s"
    and e: "eng = (fst s)\<lparr>languages := map (\<lambda>kb. lang (snd kb)) (resources (fst s))\<rparr>"
    by (auto simp: initialize_def initialize_with_cache_def split: sum.splits)
  from initialize_loop_distinct[OF first_build_distinct[OF r] l] show ?thesis
    unfolding e by simp
qed

lemma initialize_i18n_store_ok:
  assumes "initialize_i18n d cfg files = Inr eng" and "\<not> inherited d"
  shows "\<exists>db. store_ok files d db eng"
proof -
  from assms(1) obtain r s where r: "buildLang files engine0 d = Inr r"
    and l: "initialize_loop_i18n (snd (snd r)) ((fst (snd r))\<lparr>defaultLang := fst r\<rparr>) cfg = Inr s"
    and e: "eng = (fst s)\<lparr>languages := map (\<lambda>kb. lang (snd kb)) (resources (fst s))\<rparr>"
    by (auto simp: initialize_i18n_def initialize_i18n_with_cache_def split: sum.splits)
  from first_build[OF r assms(2)] obtain db
    where ok: "store_ok files d db ((fst (snd r))\<lparr>defaultLang := fst r\<rparr>)"
      and ch: "snd (snd r) = cache_of files ((fst (snd r))\<lparr>defaultLang := fst r\<rparr>)"
    by blast
  from initialize_loop_i18n_store_ok[OF ok ch l] show ?thesis
    unfolding e by (auto intro: store_ok_languages)
qed


lemma test_initialize: "initialize test_options test_files = Inr test_engine"
  by (simp add: initialize_def initialize_with_cache_def buildLang_def engine0_def
      test_options_def test_files_def test_engine_def en_file_def es_file_def es_built_def
      Let_def inherited_def object_prototype_names_def)

lemma mx_initialize: "initialize_i18n ''es-MX'' [''es''] mx_files = Inr mx_engine"
  by (simp add: initialize_i18n_def initialize_i18n_with_cache_def buildLang_def engine0_def
      mx_files_def mx_engine_def mx_file_def es_file_def Let_def inherited_def
      object_prototype_names_def)

lemma test_initialize_i18n: "initialize_i18n ''en'' [''en'', ''es''] test_files = Inr test_engine"
  by (simp add: initialize_i18n_def initialize_i18n_with_cache_def buildLang_def engine0_def
      test_files_def test_engine_def en_file_def es_file_def es_built_def Let_def inherited_def
      object_prototype_names_def)

text \<open>
  A default abbreviation that is the name of an inherited member is never loaded:
  \<^verbatim>\<open>buildLang\<close> finds \<^verbatim>\<open>resources[lang]\<close> defined, returns \<^verbatim>\<open>false\<close>, and \<^verbatim>\<open>false\<close> is what
  \<^verbatim>\<open>defaultLang\<close> holds from then on; the other languages are loaded and nothing is merged
  into them.
\<close>

lemma inherited_default_is_not_loaded:
  "initialize (test_options\<lparr>defaultLangAbbr := ''constructor''\<rparr>) test_files =
     Inr \<lparr>resources = [(''en'', en_file), (''es'', es_file)], defaultLang = False_Value,
          languages = [''en'', ''es'']\<rparr>"
  by (simp add: initialize_def initialize_with_cache_def buildLang_def engine0_def
      test_options_def test_files_def en_file_def es_file_def Let_def inherited_def
      object_prototype_names_def)

lemma test_not_inherited: "\<not> inherited ''en''" "\<not> inherited ''es''" "\<not> inherited ''es-MX''"
  by (simp_all add: inherited_def object_prototype_names_def)


section \<open>Claims about loading\<close>




text \<open>
  The merged strings are those of the cached module: after initialization \<^verbatim>\<open>require\<close>
  gives, for every language of the store, the bundle of the store.
\<close>

lemma merge_is_in_place:
  assumes "initialize_with_cache opts files = Inr (eng, cache)"
    and "\<not> inherited (defaultLangAbbr opts)" and "(L, b) \<in> set (resources eng)"
  shows "cache L = Some b"
proof -
  from initialize_with_cache_store_ok[OF assms(1,2)] obtain db
    where ok: "store_ok files (defaultLangAbbr opts) db eng" and c: "cache = cache_of files eng"
    by blast
  from ok assms(3) have "map_of (resources eng) L = Some b" by (simp add: store_ok_def)
  then show ?thesis by (simp add: c cache_of_def)
qed

lemma test_lookups:
  "getLang test_engine ''es'' = Lang es_built"
  "getLang test_engine ''en'' = Lang en_file"
  "getLang test_engine [] = Lang en_file"
  "getLang test_engine ''fr'' = Lang en_file"
  "languages test_engine = [''en'', ''es'']"
  "defaultLang test_engine = Lang en_file"
  by (simp_all add: getLang_key getLang_plain isKey_def isDeepProp_def test_engine_def)

lemma path_lookup: "getLang test_engine ''en.strings'' = Undefined_Value"
  by (simp add: getLang_def lodash_has_def resources_object_def bundle_object_def isKey_def
      isDeepProp_def toPath_def test_engine_def)

section \<open>Facts about \<^verbatim>\<open>serveLocaleData\<close>\<close>

lemma closure_set_locals: "closure (set_locals v w) = closure w"
  by (simp add: set_locals_def)

lemma closure_res_cookie: "closure (res_cookie nm v ttl w) = closure w"
  by (simp add: res_cookie_def)

lemma locals_res_cookie: "locals_i18n (res (res_cookie nm v ttl w)) = locals_i18n (res w)"
  by (simp add: res_cookie_def)

lemma locals_set_locals: "locals_i18n (res (set_locals v w)) = v"
  by (simp add: set_locals_def)

lemma cookies_set_locals: "cookies_set (res (set_locals v w)) = cookies_set (res w)"
  by (simp add: set_locals_def)

lemma set_locals_twice: "set_locals v (set_locals u w) = set_locals v w"
  by (simp add: set_locals_def)

lemma assign_locale_string:
  "assign_locale (JStr s) w = (None, set_locals (getLang (closure w) s) w)"
  by (simp add: assign_locale_def)

lemma assign_locale_nonstring: "\<not> isString v \<Longrightarrow> assign_locale v w = (Some TypeError, w)"
  by (cases v) (simp_all add: assign_locale_def)

lemma assign_locale_raised:
  "fst (assign_locale v w) = (case getLocaleData (closure w) v of Inl e \<Rightarrow> Some e | Inr b \<Rightarrow> None)"
  by (simp add: assign_locale_def split: sum.splits)

lemma assign_locale_resolved:
  "locals_i18n (res (snd (assign_locale v w))) =
     (case getLocaleData (closure w) v of Inl e \<Rightarrow> locals_i18n (res w) | Inr b \<Rightarrow> b)"
  by (simp add: assign_locale_def locals_set_locals split: sum.splits)

lemma assign_locale_closure: "closure (snd (assign_locale v w)) = closure w"
  by (simp add: assign_locale_def closure_set_locals split: sum.splits)

lemma assign_locale_cookies: "cookies_set (res (snd (assign_locale v w))) = cookies_set (res w)"
  by (simp add: assign_locale_def cookies_set_locals split: sum.splits)

text \<open>The length test of line 199 lets through two-character strings and nothing else
  that is a string.\<close>

lemma length_test: "(truthy v \<and> js_length v = JNum 2) = (two_characters v \<or> nonstring_length2 v)"
  by (cases v) (auto simp: nonstring_length2_def)

lemma two_characters_string: "two_characters v \<Longrightarrow> \<exists>s. v = JStr s \<and> length s = 2"
  by (cases v) simp_all

lemma two_characters_not_nonstring: "two_characters v \<Longrightarrow> \<not> nonstring_length2 v"
  by (cases v) (simp_all add: nonstring_length2_def)

text \<open>The four branches, one by one.\<close>

lemma serve_user:
  "has_user_language req \<Longrightarrow>
   serveLocaleData opts req w =
     assign_locale (js_prop (user req) ''language'') (set_locals Empty_Object w)"
  by (simp add: serveLocaleData_def has_user_language_def Let_def)

lemma serve_query:
  "\<not> has_user_language req \<Longrightarrow> two_characters (queryValue opts req) \<Longrightarrow>
   serveLocaleData opts req w =
     (None, res_cookie (langCookie opts) (queryValue opts req) cookieTTL
        (set_locals (getLang (closure w) (case queryValue opts req of JStr s \<Rightarrow> s | _ \<Rightarrow> []))
           w))"
  by (cases "queryValue opts req")
    (auto simp: serveLocaleData_def has_user_language_def Let_def assign_locale_string
      closure_set_locals set_locals_twice)

lemma serve_query_slip:
  "\<not> has_user_language req \<Longrightarrow> nonstring_length2 (queryValue opts req) \<Longrightarrow>
   serveLocaleData opts req w = (Some TypeError, set_locals Empty_Object w)"
  by (auto simp: serveLocaleData_def has_user_language_def Let_def nonstring_length2_def
      assign_locale_nonstring)

lemma serve_cookie:
  "\<not> has_user_language req \<Longrightarrow> \<not> two_characters (queryValue opts req) \<Longrightarrow>
   \<not> nonstring_length2 (queryValue opts req) \<Longrightarrow> has_cookie_language opts req \<Longrightarrow>
   serveLocaleData opts req w =
     assign_locale (js_prop (cookies req) (langCookie opts)) (set_locals Empty_Object w)"
  using length_test[of "queryValue opts req"]
  by (auto simp: serveLocaleData_def has_user_language_def has_cookie_language_def Let_def)

lemma serve_negotiated:
  "\<not> has_user_language req \<Longrightarrow> \<not> two_characters (queryValue opts req) \<Longrightarrow>
   \<not> nonstring_length2 (queryValue opts req) \<Longrightarrow> \<not> has_cookie_language opts req \<Longrightarrow>
   serveLocaleData opts req w =
     assign_locale (JStr (negotiated opts (closure w) req)) (set_locals Empty_Object w)"
  using length_test[of "queryValue opts req"]
  by (auto simp: serveLocaleData_def has_user_language_def has_cookie_language_def Let_def
      negotiated_def closure_set_locals)

text \<open>Outside the slip of the length test, one assignment decides the whole run.\<close>

lemma serve_by_chain:
  assumes "has_user_language req \<or> \<not> nonstring_length2 (queryValue opts req)"
  shows "\<exists>w'. serveLocaleData opts req w = (fst (assign_locale (precedence_chain opts (closure w) req)
                   (set_locals Empty_Object w)), w') \<and>
              locals_i18n (res w') = locals_i18n (res (snd (assign_locale
                   (precedence_chain opts (closure w) req) (set_locals Empty_Object w)))) \<and>
              closure w' = closure w"
proof (cases "has_user_language req")
  case True
  then have "precedence_chain opts (closure w) req = js_prop (user req) ''language''"
    by (simp add: precedence_chain_def candidates_def)
  with serve_user[OF True] show ?thesis
    by (metis assign_locale_closure closure_set_locals prod.collapse)
next
  case nu: False
  with assms have ns: "\<not> nonstring_length2 (queryValue opts req)" by simp
  show ?thesis
  proof (cases "two_characters (queryValue opts req)")
    case True
    then obtain s where s: "queryValue opts req = JStr s" using two_characters_string by blast
    from nu True have "precedence_chain opts (closure w) req = JStr s"
      by (simp add: precedence_chain_def candidates_def s)
    with serve_query[OF nu True, of w] show ?thesis
      by (simp add: s assign_locale_string closure_set_locals closure_res_cookie
          locals_res_cookie locals_set_locals)
  next
    case nq: False
    show ?thesis
    proof (cases "has_cookie_language opts req")
      case True
      with nu nq have "precedence_chain opts (closure w) req = js_prop (cookies req) (langCookie opts)"
        by (simp add: precedence_chain_def candidates_def)
      with serve_cookie[OF nu nq ns True] show ?thesis
        by (metis assign_locale_closure closure_set_locals prod.collapse)
    next
      case False
      with nu nq have "precedence_chain opts (closure w) req = JStr (negotiated opts (closure w) req)"
        by (simp add: precedence_chain_def candidates_def)
      with serve_negotiated[OF nu nq ns False] show ?thesis
        by (metis assign_locale_closure closure_set_locals prod.collapse)
    qed
  qed
qed

section \<open>Claims about resolution\<close>

text \<open>
  C1, as amended. For every request whose query value is not a non-string of length 2
  (or which carries a user language, so that the query is not looked at), resolution
  looks up the value the precedence chain selects: the user's language if there is a
  non-empty one, else the query value if it is a string of exactly two characters, else
  the cookie if there is a non-empty one, else the negotiated language, with the default
  abbreviation when negotiation yields none. What \<^verbatim>\<open>getLocaleData\<close> returns for that value
  is what \<^verbatim>\<open>res.locals.i18n\<close> holds afterwards, and what it throws is what the run throws.
\<close>

theorem precedence_chain_decides:
  assumes "has_user_language req \<or> \<not> nonstring_length2 (queryValue opts req)"
  shows "raised (serveLocaleData opts req w) =
           (case getLocaleData (closure w) (precedence_chain opts (closure w) req) of
              Inl e \<Rightarrow> Some e | Inr b \<Rightarrow> None) \<and>
         resolved (serveLocaleData opts req w) =
           (case getLocaleData (closure w) (precedence_chain opts (closure w) req) of
              Inl e \<Rightarrow> Empty_Object | Inr b \<Rightarrow> b)"
proof -
  from serve_by_chain[OF assms, of w] obtain w'
    where s: "serveLocaleData opts req w =
        (fst (assign_locale (precedence_chain opts (closure w) req) (set_locals Empty_Object w)), w')"
      and l: "locals_i18n (res w') = locals_i18n (res (snd (assign_locale
                (precedence_chain opts (closure w) req) (set_locals Empty_Object w))))"
    by blast
  show ?thesis
    unfolding raised_def resolved_def s
    by (simp add: l assign_locale_raised assign_locale_resolved closure_set_locals
        locals_set_locals split: sum.splits)
qed

theorem precedence_chain_decides_witness:
  "\<not> nonstring_length2 (queryValue test_options query_and_cookie_request) \<and>
   precedence_chain test_options test_engine query_and_cookie_request = JStr ''es'' \<and>
   raised (serveLocaleData test_options query_and_cookie_request test_world) = None \<and>
   resolved (serveLocaleData test_options query_and_cookie_request test_world) = Lang es_built"
proof -
  have h: "\<not> nonstring_length2 (queryValue test_options query_and_cookie_request)"
    by (simp add: nonstring_length2_def queryValue_def query_and_cookie_request_def
        plain_request_def test_options_def)
  have c: "precedence_chain test_options test_engine query_and_cookie_request = JStr ''es''"
    by (simp add: precedence_chain_def candidates_def has_user_language_def queryValue_def
        query_and_cookie_request_def plain_request_def test_options_def)
  have g: "getLang test_engine ''es'' = Lang es_built"
    by (rule test_lookups)
  have w: "closure test_world = test_engine" by (simp add: test_world_def)
  from precedence_chain_decides[OF disjI2[OF h], of test_world] h c show ?thesis
    by (simp add: w c g)
qed

text \<open>
  The claim as it was stated fails in two ways. A cookie sent with an empty value is
  present, and the stated chain selects its value, which is no key of the store and
  gives the default bundle; the code tests the value for truthiness, goes on to
  negotiation and gives the Spanish bundle. And for the request \<^verbatim>\<open>?hl=a&hl=b\<close> of a client
  that accepts Spanish the chain passes over the query value, which is not two
  characters long, and selects the negotiated \<^verbatim>\<open>es\<close>; the code takes the two-element array
  for a language and \<^verbatim>\<open>getLocaleData\<close> throws.
\<close>

theorem stated_chain_counterexample:
  "getLocaleData test_engine (stated_chain test_options test_engine empty_cookie_request) =
     Inr (Lang en_file) \<and>
   serveLocaleData test_options empty_cookie_request test_world =
     (None, set_locals (Lang es_built) test_world) \<and>
   en_file \<noteq> es_built \<and>
   getLocaleData test_engine (stated_chain test_options test_engine repeated_key_request) =
     Inr (Lang es_built) \<and>
   serveLocaleData test_options repeated_key_request test_world = (Some TypeError, test_world)"
  by (simp add: stated_chain_def cookie_present_def has_user_language_def
      queryValue_def negotiated_def prefers_es_def repeated_key_request_def
      empty_cookie_request_def plain_request_def
      test_options_def test_lookups serveLocaleData_def Let_def
      assign_locale_def set_locals_def test_world_def fresh_response_def en_file_def es_built_def)

text \<open>
  The chain is that of \<^verbatim>\<open>middleware.js\<close>. The variant in \<^verbatim>\<open>i18n.js\<close> never reads the query, and
  it writes no cookie.
\<close>

lemma i18n_variant_ignores_query:
  "serveLocaleData_i18n dflt (req\<lparr>query := q\<rparr>) w = serveLocaleData_i18n dflt req w"
  by (simp add: serveLocaleData_i18n_def Let_def)

lemma i18n_variant_writes_no_cookie:
  "cookies_set (res (snd (serveLocaleData_i18n dflt req w))) = cookies_set (res w)"
  by (simp add: serveLocaleData_i18n_def Let_def cookies_set_locals split: sum.splits)

lemma selected_by_branch:
  "selected opts eng req =
     (if has_user_language req then js_prop (user req) ''language''
      else if two_characters (queryValue opts req) \<or> nonstring_length2 (queryValue opts req)
        then queryValue opts req
      else if has_cookie_language opts req then js_prop (cookies req) (langCookie opts)
      else JStr (negotiated opts eng req))"
  using length_test[of "queryValue opts req"]
  by (simp add: selected_def has_user_language_def has_cookie_language_def)

lemma serve_by_selected:
  "raised (serveLocaleData opts req w) =
     (case getLocaleData (closure w) (selected opts (closure w) req) of
        Inl e \<Rightarrow> Some e | Inr b \<Rightarrow> None) \<and>
   resolved (serveLocaleData opts req w) =
     (case getLocaleData (closure w) (selected opts (closure w) req) of
        Inl e \<Rightarrow> Empty_Object | Inr b \<Rightarrow> b) \<and>
   closure (snd (serveLocaleData opts req w)) = closure w"
proof -
  consider (u) "has_user_language req"
    | (q) "\<not> has_user_language req" "two_characters (queryValue opts req)"
    | (s) "\<not> has_user_language req" "nonstring_length2 (queryValue opts req)"
    | (c) "\<not> has_user_language req" "\<not> two_characters (queryValue opts req)"
          "\<not> nonstring_length2 (queryValue opts req)" "has_cookie_language opts req"
    | (n) "\<not> has_user_language req" "\<not> two_characters (queryValue opts req)"
          "\<not> nonstring_length2 (queryValue opts req)" "\<not> has_cookie_language opts req"
    by blast
  then show ?thesis
  proof cases
    case u
    then show ?thesis
      by (simp add: serve_user selected_by_branch raised_def resolved_def assign_locale_raised
          assign_locale_resolved assign_locale_closure closure_set_locals locals_set_locals
          split: sum.splits)
  next
    case q
    then obtain s where s: "queryValue opts req = JStr s" using two_characters_string by blast
    from q show ?thesis
      by (simp add: serve_query selected_by_branch raised_def resolved_def s
          closure_res_cookie closure_set_locals locals_res_cookie locals_set_locals)
  next
    case s
    then have "\<not> isString (queryValue opts req)" by (simp add: nonstring_length2_def)
    then have "getLocaleData (closure w) (queryValue opts req) = Inl TypeError"
      by (cases "queryValue opts req") simp_all
    with s show ?thesis
      by (simp add: serve_query_slip selected_by_branch raised_def resolved_def
          closure_set_locals locals_set_locals)
  next
    case c
    then show ?thesis
      by (simp add: serve_cookie selected_by_branch raised_def resolved_def assign_locale_raised
          assign_locale_resolved assign_locale_closure closure_set_locals locals_set_locals
          split: sum.splits)
  next
    case n
    then show ?thesis
      by (simp add: serve_negotiated selected_by_branch raised_def resolved_def
          assign_locale_string closure_set_locals locals_set_locals)
  qed
qed

lemma serve_cookies_set:
  "cookies_set (res (snd (serveLocaleData opts req w))) =
     cookies_set (res w) @
       (if \<not> has_user_language req \<and> two_characters (queryValue opts req)
        then [\<lparr>cookie_name = langCookie opts, cookie_value = queryValue opts req,
               cookie_maxAge = cookieTTL, cookie_path = ''/''\<rparr>]
        else [])"
proof -
  consider (u) "has_user_language req"
    | (q) "\<not> has_user_language req" "two_characters (queryValue opts req)"
    | (s) "\<not> has_user_language req" "nonstring_length2 (queryValue opts req)"
    | (c) "\<not> has_user_language req" "\<not> two_characters (queryValue opts req)"
          "\<not> nonstring_length2 (queryValue opts req)" "has_cookie_language opts req"
    | (n) "\<not> has_user_language req" "\<not> two_characters (queryValue opts req)"
          "\<not> nonstring_length2 (queryValue opts req)" "\<not> has_cookie_language opts req"
    by blast
  then show ?thesis
  proof cases
    case u
    then show ?thesis by (simp add: serve_user assign_locale_cookies cookies_set_locals)
  next
    case q
    then show ?thesis by (simp add: serve_query res_cookie_def cookies_set_locals)
  next
    case s
    then show ?thesis
      using two_characters_not_nonstring[of "queryValue opts req"]
      by (auto simp: serve_query_slip cookies_set_locals)
  next
    case c
    then show ?thesis by (simp add: serve_cookie assign_locale_cookies cookies_set_locals)
  next
    case n
    then show ?thesis by (simp add: serve_negotiated assign_locale_cookies cookies_set_locals)
  qed
qed

lemma store_ok_plain_unknown:
  "store_ok files d db eng \<Longrightarrow> abbr \<notin> fst ` set (resources eng) \<Longrightarrow> isKey abbr \<Longrightarrow>
   getLang eng abbr = Lang db"
  by (simp add: getLang_plain store_ok_def map_of_eq_None_iff)


text \<open>
  What does hold of the fallback: after initialization with a default abbreviation that
  is not the name of an inherited member, a string that is a plain key for lodash (no
  dot, no bracket pair) and no key of the store is looked up to the default bundle, and
  a run of resolution that selects it leaves the default bundle in \<^verbatim>\<open>res.locals.i18n\<close>.
\<close>

lemma plain_unknown_gets_default:
  assumes "initialize opts files = Inr eng" and "\<not> inherited (defaultLangAbbr opts)"
    and "abbr \<notin> fst ` set (resources eng)" and "isKey abbr"
  shows "\<exists>db. defaultLang eng = Lang db \<and>
           map_of (resources eng) (defaultLangAbbr opts) = Some db \<and>
           getLang eng abbr = Lang db \<and>
           getLocaleData eng (JStr abbr) = Inr (Lang db) \<and>
           (closure w = eng \<and> selected opts eng req = JStr abbr \<longrightarrow>
              raised (serveLocaleData opts req w) = None \<and>
              resolved (serveLocaleData opts req w) = Lang db)"
proof -
  from initialize_store_ok[OF assms(1,2)] obtain db
    where ok: "store_ok files (defaultLangAbbr opts) db eng" ..
  have g: "getLang eng abbr = Lang db" by (rule store_ok_plain_unknown[OF ok assms(3,4)])
  have d: "defaultLang eng = Lang db" "map_of (resources eng) (defaultLangAbbr opts) = Some db"
    using ok by (simp_all add: store_ok_def)
  have r: "raised (serveLocaleData opts req w) = None \<and>
           resolved (serveLocaleData opts req w) = Lang db"
    if "closure w = eng" "selected opts eng req = JStr abbr"
    using serve_by_selected[of opts req w] that by (simp add: g)
  show ?thesis
    using d g r by auto
qed

text \<open>
  C3. The claim does not hold of the code. \<^verbatim>\<open>_.has(resources, lang)\<close> reads \<^verbatim>\<open>lang\<close> as a
  property path: \<^verbatim>\<open>en.strings\<close> is no key of the store, but the English bundle has
  \<^verbatim>\<open>strings\<close>, so \<^verbatim>\<open>_.has\<close> is true and \<^verbatim>\<open>getLang\<close> returns \<^verbatim>\<open>resources['en.strings']\<close>, which is
  \<^verbatim>\<open>undefined\<close>, not the default bundle. A request with the cookie \<^verbatim>\<open>en.strings\<close> ends with
  \<^verbatim>\<open>undefined\<close> in \<^verbatim>\<open>res.locals.i18n\<close>, and the strings endpoint, which reads
  \<^verbatim>\<open>res.locals.i18n.strings\<close>, throws.
\<close>

theorem path_cookie_gets_undefined:
  "initialize test_options test_files = Inr test_engine \<and>
   ''en.strings'' \<notin> fst ` set (resources test_engine) \<and>
   defaultLang test_engine = Lang en_file \<and>
   getLang test_engine ''en.strings'' = Undefined_Value \<and>
   getLocaleData test_engine (JStr ''en.strings'') = Inr Undefined_Value \<and>
   serveLocaleData test_options path_cookie_request test_world =
     (None, set_locals Undefined_Value test_world) \<and>
   fst (handle_request exact_path test_router path_cookie_request fresh_response) =
     Failed TypeError"
proof -
  have k: "''en.strings'' \<notin> fst ` set (resources test_engine)"
    by (simp add: test_engine_def)
  have s: "serveLocaleData test_options path_cookie_request test_world =
     (None, set_locals Undefined_Value test_world)"
    by (simp add: serveLocaleData_def Let_def queryValue_def path_cookie_request_def
        plain_request_def test_options_def assign_locale_def path_lookup set_locals_def
        test_world_def fresh_response_def)
  have w: "\<lparr>closure = instance_engine test_router, res = fresh_response\<rparr> = test_world"
    "instance_options test_router = test_options"
    by (simp_all add: test_router_def test_world_def)
  have f: "first_route exact_path (routes test_router) path_cookie_request = Some ServeStrings"
    by (simp add: test_router_def exact_path_def path_cookie_request_def plain_request_def)
  have h: "fst (handle_request exact_path test_router path_cookie_request fresh_response) =
     Failed TypeError"
    by (simp add: handle_request_def w s f set_locals_def)
  from test_initialize k test_lookups(6) path_lookup s h show ?thesis by simp
qed

text \<open>
  C4. A run of resolution adds a cookie to the response exactly when the query branch
  fires, that is when the request carries no user language and the query value is a
  string of exactly two characters; it adds one cookie then, named by the \<^verbatim>\<open>langCookie\<close>
  option, holding the raw query value, with \<^verbatim>\<open>Path=/\<close> and a maximal age of 365 days in
  milliseconds. In every other case the cookies of the response are as they were.
\<close>

theorem cookie_written_iff_query_branch:
  "cookies_set (res (snd (serveLocaleData opts req w))) =
     cookies_set (res w) @
       (if \<not> has_user_language req \<and> two_characters (queryValue opts req)
        then [\<lparr>cookie_name = langCookie opts, cookie_value = queryValue opts req,
               cookie_maxAge = 365 * 24 * 60 * 60 * 1000, cookie_path = ''/''\<rparr>]
        else [])"
  using serve_cookies_set[of opts req w] by (simp add: cookieTTL_def)

theorem cookie_written_iff_query_branch_witness:
  "cookies_set (res (snd (serveLocaleData test_options query_and_cookie_request test_world))) =
     [\<lparr>cookie_name = ''xp_i18n_lang'', cookie_value = JStr ''es'',
       cookie_maxAge = 31536000000, cookie_path = ''/''\<rparr>] \<and>
   cookies_set (res (snd (serveLocaleData test_options fr_cookie_request test_world))) = []"
proof -
  have q: "queryValue test_options query_and_cookie_request = JStr ''es''"
    "queryValue test_options fr_cookie_request = JUndefined"
    by (simp_all add: queryValue_def query_and_cookie_request_def fr_cookie_request_def
        plain_request_def test_options_def)
  have u: "\<not> has_user_language query_and_cookie_request" "\<not> has_user_language fr_cookie_request"
    by (simp_all add: has_user_language_def query_and_cookie_request_def fr_cookie_request_def
        plain_request_def)
  have c: "cookies_set (res test_world) = []" by (simp add: test_world_def fresh_response_def)
  have l: "langCookie test_options = ''xp_i18n_lang''" by (simp add: test_options_def)
  show ?thesis
    using cookie_written_iff_query_branch[of test_options query_and_cookie_request test_world]
      cookie_written_iff_query_branch[of test_options fr_cookie_request test_world]
    by (simp add: q u c l)
qed

text \<open>
  C8. Running resolution a second time, on the state the first run left, throws what
  the first run threw and leaves the same value in \<^verbatim>\<open>res.locals.i18n\<close>; and neither run
  changes the private variables of the middleware: the store, the default bundle and
  the list of languages are after each run what they were before it.
\<close>

theorem resolution_idempotent_and_read_only:
  "raised (serveLocaleData opts req (snd (serveLocaleData opts req w))) =
     raised (serveLocaleData opts req w) \<and>
   resolved (serveLocaleData opts req (snd (serveLocaleData opts req w))) =
     resolved (serveLocaleData opts req w) \<and>
   closure (snd (serveLocaleData opts req w)) = closure w \<and>
   closure (snd (serveLocaleData opts req (snd (serveLocaleData opts req w)))) = closure w"
  using serve_by_selected[of opts req w]
    serve_by_selected[of opts req "snd (serveLocaleData opts req w)"]
  by simp

theorem resolution_idempotent_and_read_only_witness:
  "resolved (serveLocaleData test_options query_and_cookie_request
      (snd (serveLocaleData test_options query_and_cookie_request test_world))) = Lang es_built \<and>
   resolved (serveLocaleData test_options query_and_cookie_request test_world) = Lang es_built \<and>
   closure (snd (serveLocaleData test_options query_and_cookie_request
      (snd (serveLocaleData test_options query_and_cookie_request test_world)))) = test_engine"
proof -
  have s: "selected test_options test_engine query_and_cookie_request = JStr ''es''"
    by (simp add: selected_def queryValue_def query_and_cookie_request_def plain_request_def
        test_options_def)
  have g: "getLang test_engine ''es'' = Lang es_built"
    by (rule test_lookups)
  have c: "closure test_world = test_engine" by (simp add: test_world_def)
  have "resolved (serveLocaleData test_options query_and_cookie_request test_world) = Lang es_built"
    using serve_by_selected[of test_options query_and_cookie_request test_world]
    by (simp add: c s g)
  with resolution_idempotent_and_read_only[of test_options query_and_cookie_request test_world]
  show ?thesis by (simp add: c)
qed

text \<open>
  C9. The option \<^verbatim>\<open>queryStringEnabled\<close> is read nowhere: with the option off, resolution
  returns the same result and leaves the same state, cookies included, as with the
  option on; initialization builds the same store; and the router gives every request
  the same outcome.
\<close>

theorem queryStringEnabled_is_ignored:
  "serveLocaleData (opts\<lparr>queryStringEnabled := False\<rparr>) req w =
     serveLocaleData (opts\<lparr>queryStringEnabled := True\<rparr>) req w \<and>
   initialize (opts\<lparr>queryStringEnabled := False\<rparr>) files =
     initialize (opts\<lparr>queryStringEnabled := True\<rparr>) files \<and>
   map_sum id (\<lambda>rt. handle_request matches rt req rs)
       (localizeMiddleware (opts\<lparr>queryStringEnabled := False\<rparr>) files) =
     map_sum id (\<lambda>rt. handle_request matches rt req rs)
       (localizeMiddleware (opts\<lparr>queryStringEnabled := True\<rparr>) files)"
proof -
  have s: "serveLocaleData (opts\<lparr>queryStringEnabled := b\<rparr>) req w = serveLocaleData opts req w"
    for b w
    by (simp add: serveLocaleData_def queryValue_def Let_def
        cong: prod.case_cong option.case_cong if_cong)
  have i: "initialize (opts\<lparr>queryStringEnabled := b\<rparr>) files = initialize opts files" for b
    by (simp add: initialize_def initialize_with_cache_def cong: sum.case_cong)
  have e: "endpointRoutes (opts\<lparr>queryStringEnabled := b\<rparr>) = endpointRoutes opts" for b
    by (simp add: endpointRoutes_def Let_def)
  have h: "map_sum id (\<lambda>rt. handle_request matches rt req rs)
             (localizeMiddleware (opts\<lparr>queryStringEnabled := b\<rparr>) files) =
           map_sum id (\<lambda>rt. handle_request matches rt req rs) (localizeMiddleware opts files)"
    for b
    by (simp add: localizeMiddleware_def i e handle_request_def s split: sum.splits
        cong: sum.case_cong prod.case_cong option.case_cong)
  show ?thesis by (simp add: s i h)
qed

theorem queryStringEnabled_is_ignored_witness:
  "cookies_set (res (snd (serveLocaleData (test_options\<lparr>queryStringEnabled := False\<rparr>)
      query_and_cookie_request test_world))) =
     [\<lparr>cookie_name = ''xp_i18n_lang'', cookie_value = JStr ''es'',
       cookie_maxAge = 31536000000, cookie_path = ''/''\<rparr>]"
proof -
  have q: "queryValue test_options query_and_cookie_request = JStr ''es''"
    by (simp add: queryValue_def query_and_cookie_request_def plain_request_def test_options_def)
  have u: "\<not> has_user_language query_and_cookie_request"
    by (simp add: has_user_language_def query_and_cookie_request_def plain_request_def)
  have c: "cookies_set (res test_world) = []" by (simp add: test_world_def fresh_response_def)
  have l: "langCookie test_options = ''xp_i18n_lang''" by (simp add: test_options_def)
  have t: "test_options\<lparr>queryStringEnabled := True\<rparr> = test_options"
    by (simp add: test_options_def)
  have "cookies_set (res (snd (serveLocaleData test_options query_and_cookie_request test_world)))
      = [\<lparr>cookie_name = ''xp_i18n_lang'', cookie_value = JStr ''es'',
          cookie_maxAge = 31536000000, cookie_path = ''/''\<rparr>]"
    using serve_cookies_set[of test_options query_and_cookie_request test_world]
    by (simp add: q u c l cookieTTL_def)
  with queryStringEnabled_is_ignored[of test_options query_and_cookie_request test_world]
  show ?thesis by (simp add: t)
qed

section \<open>Claims about the endpoints\<close>

lemma endpointRoutes_paths:
  "endpointEnabled opts \<Longrightarrow>
   map fst (endpointRoutes opts) =
     [endpointPath opts, endpointPath opts @ ''/strings'', endpointPath opts @ ''/languages'']"
  by (simp add: endpointRoutes_def Let_def)

text \<open>
  C5. The claim does not hold of the code: with \<^verbatim>\<open>endpointPath\<close> configured as \<^verbatim>\<open>/i18n/\<close>
  the routes are registered under \<^verbatim>\<open>/i18n/\<close>, \<^verbatim>\<open>/i18n//strings\<close> and \<^verbatim>\<open>/i18n//languages\<close>, the
  trailing slash still in place, and they differ from the routes registered for
  \<^verbatim>\<open>/i18n\<close>. A request for \<^verbatim>\<open>/i18n/languages\<close> is answered by the languages handler
  under the second configuration and by no handler of the router under the first.
\<close>

theorem trailing_slash_is_kept:
  "map fst (endpointRoutes (test_options\<lparr>endpointPath := ''/i18n/''\<rparr>)) =
     [''/i18n/'', ''/i18n//strings'', ''/i18n//languages''] \<and>
   map fst (endpointRoutes test_options) = [''/i18n'', ''/i18n/strings'', ''/i18n/languages''] \<and>
   first_route exact_path (endpointRoutes (test_options\<lparr>endpointPath := ''/i18n/''\<rparr>))
     languages_request = None \<and>
   first_route exact_path (endpointRoutes test_options) languages_request = Some ServeLanguages"
  by (simp add: endpointRoutes_def Let_def test_options_def exact_path_def languages_request_def
      plain_request_def)

lemma test_localizeMiddleware: "localizeMiddleware test_options test_files = Inr test_router"
  unfolding localizeMiddleware_def test_initialize
  by (simp add: test_router_def endpointRoutes_def Let_def test_options_def)

lemma localizeMiddleware_parts:
  "localizeMiddleware opts files = Inr rt \<Longrightarrow>
   initialize opts files = Inr (instance_engine rt) \<and> instance_options rt = opts \<and>
   routes rt = endpointRoutes opts"
  by (auto simp: localizeMiddleware_def split: sum.splits)

text \<open>
  C7, as amended. For every request that the router matches to the languages route and
  on which resolution does not throw, the response is the array with one
  \<^verbatim>\<open>{name, value}\<close> entry for each entry of the store, in the store's order; the keys of the
  store are distinct, so the array is as long as there are loaded languages. The array
  is a function of the store alone: no signal of the request occurs in it.
\<close>

theorem languages_endpoint_lists_store:
  assumes "localizeMiddleware opts files = Inr rt"
    and "first_route matches (routes rt) req = Some ServeLanguages"
    and "raised (serveLocaleData opts req \<lparr>closure = instance_engine rt, res = rs\<rparr>) = None"
  shows "fst (handle_request matches rt req rs) =
           Responded (LanguagesJson
             (map (\<lambda>kb. \<lparr>entry_name = language (snd kb), entry_value = lang (snd kb)\<rparr>)
                (resources (instance_engine rt)))) \<and>
         distinct (map fst (resources (instance_engine rt))) \<and>
         length (getLanguages (instance_engine rt)) =
           card (fst ` set (resources (instance_engine rt)))"
proof -
  from localizeMiddleware_parts[OF assms(1)]
  have i: "initialize opts files = Inr (instance_engine rt)" and o: "instance_options rt = opts"
    by simp_all
  from initialize_distinct[OF i] have d: "distinct (map fst (resources (instance_engine rt)))" .
  have c: "closure (snd (serveLocaleData opts req \<lparr>closure = instance_engine rt, res = rs\<rparr>)) =
           instance_engine rt"
    using serve_by_selected[of opts req "\<lparr>closure = instance_engine rt, res = rs\<rparr>"] by simp
  have "fst (handle_request matches rt req rs) =
          Responded (LanguagesJson (getLanguages (instance_engine rt)))"
    using assms(2,3) c
    by (auto simp: handle_request_def o raised_def split: prod.splits option.splits)
  moreover have "length (getLanguages (instance_engine rt)) =
                 card (fst ` set (resources (instance_engine rt)))"
    using distinct_card[OF d] by (simp add: getLanguages_def)
  ultimately show ?thesis using d by (simp add: getLanguages_def)
qed

theorem languages_endpoint_lists_store_witness:
  "localizeMiddleware test_options test_files = Inr test_router \<and>
   first_route exact_path (routes test_router) languages_request = Some ServeLanguages \<and>
   raised (serveLocaleData test_options languages_request
             \<lparr>closure = instance_engine test_router, res = fresh_response\<rparr>) = None \<and>
   fst (handle_request exact_path test_router languages_request fresh_response) =
     Responded (LanguagesJson [\<lparr>entry_name = ''English'', entry_value = ''en''\<rparr>,
                               \<lparr>entry_name = ''Spanish'', entry_value = ''es''\<rparr>])"
proof -
  have m: "localizeMiddleware test_options test_files = Inr test_router"
    by (rule test_localizeMiddleware)
  have f: "first_route exact_path (routes test_router) languages_request = Some ServeLanguages"
    by (simp add: test_router_def exact_path_def languages_request_def plain_request_def)
  have r: "raised (serveLocaleData test_options languages_request
             \<lparr>closure = instance_engine test_router, res = fresh_response\<rparr>) = None"
    using serve_by_selected[of test_options languages_request
        "\<lparr>closure = instance_engine test_router, res = fresh_response\<rparr>"]
    by (simp add: selected_def queryValue_def languages_request_def plain_request_def
        test_options_def)
  have e: "resources (instance_engine test_router) = [(''en'', en_file), (''es'', es_built)]"
    by (simp add: test_router_def test_engine_def)
  from languages_endpoint_lists_store[OF m f r] m f r show ?thesis
    by (simp add: e en_file_def es_built_def)
qed

text \<open>
  The claim as it was stated, for every request, fails in two ways. A user object whose
  \<^verbatim>\<open>language\<close> is the number 5 is rejected by \<^verbatim>\<open>getLocaleData\<close>, and a repeated query key
  \<^verbatim>\<open>?hl=a&hl=b\<close> reaches \<^verbatim>\<open>getLocaleData\<close> as an array: in both cases resolution throws
  before the languages handler is reached.
\<close>

theorem languages_endpoint_counterexample:
  "first_route exact_path (routes test_router) numeric_user_request = Some ServeLanguages \<and>
   fst (handle_request exact_path test_router numeric_user_request fresh_response) =
     Failed TypeError \<and>
   first_route exact_path (routes test_router) repeated_key_languages_request =
     Some ServeLanguages \<and>
   fst (handle_request exact_path test_router repeated_key_languages_request fresh_response) =
     Failed TypeError"
  by (simp add: handle_request_def test_router_def exact_path_def numeric_user_request_def
      repeated_key_languages_request_def languages_request_def plain_request_def
      serveLocaleData_def queryValue_def Let_def assign_locale_def test_options_def)

section \<open>Claims about \<^verbatim>\<open>getLocaleData\<close>\<close>











text \<open>
  C10, as amended. After initialization by \<^verbatim>\<open>i18n.js\<close> with a default abbreviation that is
  not the name of an inherited member, the one-element list \<^verbatim>\<open>["null"]\<close> is replaced by the
  list of the default abbreviation; the result is the default bundle provided the
  language part of the default abbreviation (what precedes its first hyphen) is the
  abbreviation itself or is nothing that \<^verbatim>\<open>_.has\<close> finds in the store.
\<close>

theorem null_list_yields_default:
  assumes "initialize_i18n d cfg files = Inr eng"
    and "\<not> inherited d"
    and "strip_locale d = d \<or>
         lodash_has (resources_object (resources eng)) (strip_locale d) = Has_Not"
  shows "\<exists>db. defaultLang eng = Lang db \<and> map_of (resources eng) d = Some db \<and>
           getLocaleData_i18n d eng (JArr [''null'']) = Inr (getLangs eng [d]) \<and>
           getLocaleData_i18n d eng (JArr [''null'']) = Inr (Lang db)"
proof -
  from initialize_i18n_store_ok[OF assms(1,2)] obtain db where ok: "store_ok files d db eng" ..
  then have dl: "defaultLang eng = Lang db" and dm: "map_of (resources eng) d = Some db"
    by (simp_all add: store_ok_def)
  have "first_available eng (parseLangs [d]) = Lang db"
  proof (cases "strip_locale d = []")
    case True
    then show ?thesis by (simp add: parseLangs_def compact_def dl)
  next
    case False
    then have p: "parseLangs [d] = [strip_locale d]" by (simp add: parseLangs_def compact_def)
    from assms(3) show ?thesis
    proof
      assume "strip_locale d = d"
      then show ?thesis by (simp add: p dm lodash_has_key)
    next
      assume "lodash_has (resources_object (resources eng)) (strip_locale d) = Has_Not"
      then show ?thesis by (simp add: p dl)
    qed
  qed
  then show ?thesis using dl dm by (simp add: getLangs_def)
qed

theorem null_list_yields_default_witness:
  "initialize_i18n ''en'' [''en'', ''es''] test_files = Inr test_engine \<and>
   \<not> inherited ''en'' \<and>
   strip_locale ''en'' = ''en'' \<and>
   getLocaleData_i18n ''en'' test_engine (JArr [''null'']) = Inr (Lang en_file)"
proof -
  have s: "strip_locale ''en'' = ''en''" by (simp add: strip_locale_def)
  have d: "defaultLang test_engine = Lang en_file" by (simp add: test_engine_def)
  from null_list_yields_default[OF test_initialize_i18n test_not_inherited(1) disjI1[OF s]]
    test_initialize_i18n test_not_inherited(1) s d
  show ?thesis by auto
qed

text \<open>
  The claim as it was stated fails for an installation whose default abbreviation is the
  locale \<^verbatim>\<open>es-MX\<close> and which also loads \<^verbatim>\<open>es\<close>: the substituted default is cut down to \<^verbatim>\<open>es\<close>
  by \<^verbatim>\<open>parseLangs\<close>, and the bundle of \<^verbatim>\<open>es\<close> is returned.
\<close>

theorem null_list_counterexample:
  "initialize_i18n ''es-MX'' [''es''] mx_files = Inr mx_engine \<and>
   defaultLang mx_engine = Lang mx_file \<and>
   getLocaleData_i18n ''es-MX'' mx_engine (JArr [''null'']) = Inr (Lang es_file) \<and>
   es_file \<noteq> mx_file"
proof -
  have h: "lodash_has (resources_object (resources mx_engine)) ''es'' = Has"
    by (simp add: lodash_has_key mx_engine_def)
  have m: "map_of (resources mx_engine) ''es'' = Some es_file" "defaultLang mx_engine = Lang mx_file"
    by (simp_all add: mx_engine_def)
  have p: "parseLangs [''es-MX''] = [''es'']"
    by (simp add: parseLangs_def strip_locale_def compact_def substring0_def Let_def)
  have "es_file \<noteq> mx_file" by (simp add: es_file_def mx_file_def)
  with mx_initialize h m p show ?thesis by (simp add: getLangs_def)
qed

text \<open>
  The proviso speaks of \<^verbatim>\<open>_.has\<close> and not of the keys of the store: with the default
  abbreviation \<^verbatim>\<open>es.lang-MX\<close> and \<^verbatim>\<open>es\<close> loaded, the language part \<^verbatim>\<open>es.lang\<close> is no key, but
  \<^verbatim>\<open>_.has\<close> finds it as a path, and the result is \<^verbatim>\<open>undefined\<close>.
\<close>

lemma null_list_dotted_default:
  "initialize_i18n ''es.lang-MX'' [''es''] dotted_files = Inr dotted_engine \<and>
   ''es.lang'' \<notin> fst ` set (resources dotted_engine) \<and>
   getLocaleData_i18n ''es.lang-MX'' dotted_engine (JArr [''null'']) = Inr Undefined_Value"
proof -
  have i: "initialize_i18n ''es.lang-MX'' [''es''] dotted_files = Inr dotted_engine"
    by (simp add: initialize_i18n_def initialize_i18n_with_cache_def buildLang_def engine0_def
        dotted_files_def dotted_engine_def mx_file_def es_file_def Let_def inherited_def
        object_prototype_names_def)
  have p: "parseLangs [''es.lang-MX''] = [''es.lang'']"
    by (simp add: parseLangs_def strip_locale_def compact_def substring0_def Let_def)
  have h: "lodash_has (resources_object (resources dotted_engine)) ''es.lang'' = Has"
    by (simp add: lodash_has_def resources_object_def bundle_object_def isKey_def
        isDeepProp_def toPath_def dotted_engine_def)
  have m: "map_of (resources dotted_engine) ''es.lang'' = None"
    "''es.lang'' \<notin> fst ` set (resources dotted_engine)"
    by (simp_all add: dotted_engine_def)
  from i p h m show ?thesis by (simp add: getLangs_def)
qed

end
